theory Spec2Isabelle
  imports Complex_Main "HOL-Library.Sublist"
begin

section \<open>Data model\<close>

text \<open>
  JavaScript numbers are modelled as \<^typ>\<open>real\<close> (the arithmetic of the source without
  rounding); counters that the source only ever increments by one or compares with integer
  literals are \<^typ>\<open>nat\<close> or \<^typ>\<open>int\<close>.

  The string-valued tags of the source become datatypes: the super powers
  \<^verbatim>\<open>'bridge' | 'doorBreaker' | 'securityBriber'\<close> (with \<^verbatim>\<open>null\<close> as \<open>None\<close>),
  the obstacle types \<^verbatim>\<open>'wall' | 'door' | 'gap' | 'security' | 'securityGuard'\<close> and the
  enum \<^verbatim>\<open>GameState\<close> of \<^verbatim>\<open>types.js\<close>.
\<close>

datatype GameState = MENU | PLAYING | PAUSED | LEVEL_COMPLETE | GAME_OVER | VICTORY

datatype SuperPower = Bridge | DoorBreaker | SecurityBriber

datatype ObstacleType = Wall | Door | Gap | Security | SecurityGuard

record Vector2 =
  vec_x :: real
  vec_y :: real

record BoundingBox =
  box_x :: real
  box_y :: real
  box_width :: real
  box_height :: real

record Passenger =
  position :: Vector2
  velocity :: Vector2
  width :: real
  height :: real
  isActive :: bool
  hasReachedGate :: bool
  isFalling :: bool
  direction :: int
  isUsingPower :: bool
  powerCooldown :: real
  superPower :: "SuperPower option"
  pid :: string
  color :: string

section \<open>CollisionSystem\<close>

definition checkAABB :: "BoundingBox \<Rightarrow> BoundingBox \<Rightarrow> bool" where
  "checkAABB box1 box2 \<longleftrightarrow>
     box_x box1 < box_x box2 + box_width box2 \<and>
     box_x box1 + box_width box1 > box_x box2 \<and>
     box_y box1 < box_y box2 + box_height box2 \<and>
     box_y box1 + box_height box1 > box_y box2"

section \<open>Passenger\<close>

definition getColorForPower :: "SuperPower option \<Rightarrow> string" where
  "getColorForPower sp =
     (case sp of
        Some Bridge \<Rightarrow> ''#4CAF50''
      | Some DoorBreaker \<Rightarrow> ''#FF9800''
      | Some SecurityBriber \<Rightarrow> ''#9C27B0''
      | None \<Rightarrow> ''#2196F3'')"

text \<open>The constructor \<^verbatim>\<open>new Passenger(startPosition, superPower, id)\<close>.\<close>

definition newPassenger :: "Vector2 \<Rightarrow> SuperPower option \<Rightarrow> string \<Rightarrow> Passenger" where
  "newPassenger startPosition sp ident =
     \<lparr> position = startPosition,
       velocity = \<lparr> vec_x = 0, vec_y = 0 \<rparr>,
       width = 24,
       height = 32,
       isActive = True,
       hasReachedGate = False,
       isFalling = False,
       direction = 1,
       isUsingPower = False,
       powerCooldown = 0,
       superPower = sp,
       pid = ident,
       color = getColorForPower sp \<rparr>"

definition reverseDirection :: "Passenger \<Rightarrow> Passenger" where
  "reverseDirection p = p\<lparr> direction := (if direction p = 1 then - 1 else 1) \<rparr>"

definition getBounds :: "Passenger \<Rightarrow> BoundingBox" where
  "getBounds p =
     \<lparr> box_x = vec_x (position p), box_y = vec_y (position p),
       box_width = width p, box_height = height p \<rparr>"

text \<open>
  \<^verbatim>\<open>activateSuperPower\<close> returns the updated passenger together with the boolean the
  method returns.
\<close>

definition activateSuperPower :: "Passenger \<Rightarrow> Passenger \<times> bool" where
  "activateSuperPower p =
     (if superPower p = None \<or> powerCooldown p > 0 \<or> isUsingPower p
      then (p, False)
      else (p\<lparr> isUsingPower := True, powerCooldown := 2 \<rparr>, True))"

definition stopUsingPower :: "Passenger \<Rightarrow> Passenger" where
  "stopUsingPower p = p\<lparr> isUsingPower := False \<rparr>"

definition checkReachedGate :: "Vector2 \<Rightarrow> real \<Rightarrow> Passenger \<Rightarrow> Passenger \<times> bool" where
  "checkReachedGate gatePosition gateWidth p =
     (if hasReachedGate p then (p, False)
      else
        let bounds = getBounds p;
            gateLeft = vec_x gatePosition;
            gateRight = vec_x gatePosition + gateWidth;
            gateTop = vec_y gatePosition;
            gateBottom = vec_y gatePosition + 50
        in if box_x bounds + box_width bounds \<ge> gateLeft \<and>
              box_x bounds \<le> gateRight \<and>
              box_y bounds + box_height bounds \<ge> gateTop \<and>
              box_y bounds \<le> gateBottom
           then (p\<lparr> hasReachedGate := True, isActive := False \<rparr>, True)
           else (p, False))"

subsection \<open>The physics step \<^verbatim>\<open>Passenger.update\<close>\<close>

text \<open>
  The loop over the platforms. Its state is the passenger (the loop writes
  \<^verbatim>\<open>velocity.y\<close> and \<^verbatim>\<open>isFalling\<close>) and the locals \<^verbatim>\<open>newY\<close> and
  \<^verbatim>\<open>onPlatform\<close>; \<^verbatim>\<open>feetY\<close> and \<^verbatim>\<open>testBoundsY\<close> are computed once before the loop.
  The first branch ends with \<^verbatim>\<open>break\<close>.
\<close>

fun platformLoop ::
  "real \<Rightarrow> BoundingBox \<Rightarrow> BoundingBox list \<Rightarrow> Passenger \<times> real \<times> bool \<Rightarrow> Passenger \<times> real \<times> bool"
where
  "platformLoop feetY testBoundsY [] st = st"
| "platformLoop feetY testBoundsY (platform # rest) (p, newY, onPlatform) =
     (if vec_x (position p) + width p > box_x platform \<and>
         vec_x (position p) < box_x platform + box_width platform \<and>
         feetY \<ge> box_y platform - 2 \<and>
         feetY \<le> box_y platform + 5 \<and>
         vec_y (velocity p) \<ge> 0
      then (p\<lparr> velocity := (velocity p)\<lparr> vec_y := 0 \<rparr>, isFalling := False \<rparr>,
            box_y platform - height p, True)
      else if checkAABB testBoundsY platform \<and>
              (box_y testBoundsY + box_height testBoundsY) - box_y platform
                < (box_y platform + box_height platform) - box_y testBoundsY \<and>
              vec_y (velocity p) < 0
      then platformLoop feetY testBoundsY rest
             (p\<lparr> velocity := (velocity p)\<lparr> vec_y := 0 \<rparr> \<rparr>,
              box_y platform + box_height platform, onPlatform)
      else platformLoop feetY testBoundsY rest (p, newY, onPlatform))"

text \<open>The vertical loop over the walls (no \<^verbatim>\<open>break\<close>).\<close>

fun wallLoopY ::
  "BoundingBox \<Rightarrow> BoundingBox list \<Rightarrow> Passenger \<times> real \<times> bool \<Rightarrow> Passenger \<times> real \<times> bool"
where
  "wallLoopY testBoundsY [] st = st"
| "wallLoopY testBoundsY (w # rest) (p, newY, onPlatform) =
     (if checkAABB testBoundsY w
      then (if (box_y testBoundsY + box_height testBoundsY) - box_y w
                 < (box_y w + box_height w) - box_y testBoundsY
            then wallLoopY testBoundsY rest
                   (p\<lparr> velocity := (velocity p)\<lparr> vec_y := 0 \<rparr> \<rparr>, box_y w - height p, True)
            else wallLoopY testBoundsY rest
                   (p\<lparr> velocity := (velocity p)\<lparr> vec_y := 0 \<rparr> \<rparr>,
                    box_y w + box_height w, onPlatform))
      else wallLoopY testBoundsY rest (p, newY, onPlatform))"

text \<open>
  \<^verbatim>\<open>update(deltaTime, platforms, walls, targetX, targetY)\<close>, in the four parts that
  follow its early return. An argument that is \<^verbatim>\<open>undefined\<close> is \<open>None\<close>.
\<close>

text \<open>Gravity, the turn towards the target, and the horizontal velocity.\<close>

definition steer :: "real \<Rightarrow> real option \<Rightarrow> real option \<Rightarrow> Passenger \<Rightarrow> Passenger" where
  "steer deltaTime targetX targetY p0 =
     (let p1 = p0\<lparr> velocity := (velocity p0)\<lparr> vec_y := vec_y (velocity p0) + 500 * deltaTime \<rparr> \<rparr>;
          speed = 50;
          p2 = (case (targetX, targetY) of
                  (Some tx, Some ty) \<Rightarrow>
                    let dx = tx - vec_x (position p1)
                    in if \<bar>dx\<bar> > 10
                       then p1\<lparr> direction := (if dx > 0 then 1 else - 1) \<rparr>
                       else p1
                | _ \<Rightarrow> p1)
      in p2\<lparr> velocity := (velocity p2)\<lparr> vec_x := real_of_int (direction p2) * speed \<rparr> \<rparr>)"

text \<open>
  The horizontal move. The loop over the walls reverses and stops at the first wall
  hit, whichever wall it is, so it is a test for the existence of a colliding wall.
\<close>

definition moveHorizontal :: "real \<Rightarrow> BoundingBox list \<Rightarrow> Passenger \<Rightarrow> Passenger" where
  "moveHorizontal deltaX walls p =
     (let speed = 50;
          newX = vec_x (position p) + deltaX;
          testBoundsX = \<lparr> box_x = newX, box_y = vec_y (position p),
                          box_width = width p, box_height = height p \<rparr>
      in if superPower p \<noteq> Some DoorBreaker \<and> list_ex (checkAABB testBoundsX) walls
         then (let q = reverseDirection p
               in q\<lparr> velocity := (velocity q)\<lparr> vec_x := real_of_int (direction q) * speed \<rparr>,
                     position := (position q)\<lparr> vec_x := vec_x (position p) \<rparr> \<rparr>)
         else p\<lparr> position := (position p)\<lparr> vec_x := newX \<rparr> \<rparr>)"

text \<open>The vertical move and the falling flag.\<close>

definition moveVertical ::
  "real \<Rightarrow> BoundingBox list \<Rightarrow> BoundingBox list \<Rightarrow> Passenger \<Rightarrow> Passenger"
where
  "moveVertical deltaY platforms walls p =
     (let newY = vec_y (position p) + deltaY;
          feetY = vec_y (position p) + height p;
          testBoundsY = \<lparr> box_x = vec_x (position p), box_y = newY,
                          box_width = width p, box_height = height p \<rparr>;
          st1 = platformLoop feetY testBoundsY platforms (p, newY, False);
          st2 = wallLoopY testBoundsY walls st1;
          q = fst st2;
          newY2 = fst (snd st2);
          onPlatform = snd (snd st2);
          r = q\<lparr> position := (position q)\<lparr> vec_y := newY2 \<rparr> \<rparr>
      in if \<not> onPlatform \<and> vec_y (velocity r) > 0 then r\<lparr> isFalling := True \<rparr> else r)"

text \<open>The cooldown of the power.\<close>

definition cooldownStep :: "real \<Rightarrow> Passenger \<Rightarrow> Passenger" where
  "cooldownStep deltaTime p =
     (if powerCooldown p > 0 then p\<lparr> powerCooldown := powerCooldown p - deltaTime \<rparr> else p)"

definition Passenger_update ::
  "real \<Rightarrow> BoundingBox list \<Rightarrow> BoundingBox list \<Rightarrow> real option \<Rightarrow> real option
     \<Rightarrow> Passenger \<Rightarrow> Passenger"
where
  "Passenger_update deltaTime platforms walls targetX targetY p0 =
     (if \<not> isActive p0 \<or> hasReachedGate p0 then p0
      else
        let p1 = steer deltaTime targetX targetY p0;
            deltaX = vec_x (velocity p1) * deltaTime;
            deltaY = vec_y (velocity p1) * deltaTime;
            p2 = moveHorizontal deltaX walls p1;
            p3 = moveVertical deltaY platforms walls p2
        in cooldownStep deltaTime p3)"

text \<open>
  A call made on a passenger, for sequences of calls: each of the methods of the class
  that write a field.
\<close>

datatype PassengerCall =
    CallUpdate real "BoundingBox list" "BoundingBox list" "real option" "real option"
  | CallActivateSuperPower
  | CallStopUsingPower
  | CallCheckReachedGate Vector2 real
  | CallReverseDirection

text \<open>The passenger after a call, and what the call returned (\<open>None\<close> for \<^verbatim>\<open>void\<close>).\<close>

fun doCall :: "PassengerCall \<Rightarrow> Passenger \<Rightarrow> Passenger \<times> bool option" where
  "doCall (CallUpdate dt platforms walls tx ty) p = (Passenger_update dt platforms walls tx ty p, None)"
| "doCall CallActivateSuperPower p = (let (q, r) = activateSuperPower p in (q, Some r))"
| "doCall CallStopUsingPower p = (stopUsingPower p, None)"
| "doCall (CallCheckReachedGate gate gw) p = (let (q, r) = checkReachedGate gate gw p in (q, Some r))"
| "doCall CallReverseDirection p = (reverseDirection p, None)"

text \<open>The passenger after a sequence of calls.\<close>

fun doCalls :: "PassengerCall list \<Rightarrow> Passenger \<Rightarrow> Passenger" where
  "doCalls [] p = p"
| "doCalls (c # cs) p = doCalls cs (fst (doCall c p))"

text \<open>What the calls of \<^verbatim>\<open>checkReachedGate\<close> in a sequence of calls returned, in order.\<close>

fun gateReturns :: "PassengerCall list \<Rightarrow> Passenger \<Rightarrow> bool list" where
  "gateReturns [] p = []"
| "gateReturns (CallCheckReachedGate gate gw # cs) p =
     snd (checkReachedGate gate gw p) # gateReturns cs (fst (checkReachedGate gate gw p))"
| "gateReturns (c # cs) p = gateReturns cs (fst (doCall c p))"

section \<open>GameEngine\<close>

text \<open>
  The engine is the one of \<^verbatim>\<open>src/GameEngine.ts\<close>, with its three super powers.

  The obstacles of the running level (\<^verbatim>\<open>{type, x, y, width, height, id}\<close>), the bridges
  (\<^verbatim>\<open>{x, y, width}\<close>) and the level configuration with its obstacles
  (\<^verbatim>\<open>{type, position, width, height, id}\<close>).
\<close>

record Obstacle =
  ob_type :: ObstacleType
  ob_x :: real
  ob_y :: real
  ob_width :: real
  ob_height :: real
  ob_id :: string

record BridgePlatform =
  br_x :: real
  br_y :: real
  br_width :: real

record ConfigObstacle =
  cfg_type :: ObstacleType
  cfg_position :: Vector2
  cfg_width :: real
  cfg_height :: real
  cfg_id :: string

record LevelConfig =
  levelNumber :: int
  cfg_obstacles :: "ConfigObstacle list"
  spawnPoint :: Vector2
  cfg_checkInGate :: Vector2
  difficulty :: int

text \<open>
  The fields of \<^verbatim>\<open>GameEngine\<close> that the simulation reads or writes. The canvas is
  its two dimensions. \<^verbatim>\<open>selectedPassenger\<close> is a reference to one of the objects of
  \<^verbatim>\<open>passengers\<close>: here the index of that passenger in the list. The drawing context,
  the sound manager, the logo, the decorative airport layout, \<^verbatim>\<open>lastTime\<close> and the
  list of baddies (always empty: the generator makes none and nothing updates them) are
  left out. The fields that are never reassigned are constants.
\<close>

record GameEngine =
  canvasWidth :: real
  canvasHeight :: real
  gameState :: GameState
  passengers :: "Passenger list"
  bridges :: "BridgePlatform list"
  currentLevel :: int
  levelConfig :: "LevelConfig option"
  levelStartTime :: real
  passengersSpawned :: nat
  spawnTimer :: real
  groundLevel :: real
  checkInGate :: Vector2
  obstacles :: "Obstacle list"
  platforms :: "BoundingBox list"
  walls :: "BoundingBox list"
  selectedPassenger :: "nat option"
  selectedPower :: "SuperPower option"
  powerCounts :: "SuperPower \<rightharpoonup> int"

definition levelTimeLimit :: real where "levelTimeLimit = 300"
definition totalPassengers :: nat where "totalPassengers = 100"
definition spawnInterval :: real where "spawnInterval = 0.5"
definition gateWidth :: real where "gateWidth = 100"
definition uiHeight :: real where "uiHeight = 120"

text \<open>\<^verbatim>\<open>this.powerCounts.get(power) || 0\<close>\<close>

definition getCount :: "GameEngine \<Rightarrow> SuperPower \<Rightarrow> int" where
  "getCount e sp = (case powerCounts e sp of None \<Rightarrow> 0 | Some c \<Rightarrow> c)"

definition initializePowerCounts :: "GameEngine \<Rightarrow> GameEngine" where
  "initializePowerCounts e =
     e\<lparr> powerCounts := (powerCounts e)(Bridge \<mapsto> 10, DoorBreaker \<mapsto> 8, SecurityBriber \<mapsto> 6) \<rparr>"

definition obstacleBounds :: "Obstacle \<Rightarrow> BoundingBox" where
  "obstacleBounds ob =
     \<lparr> box_x = ob_x ob, box_y = ob_y ob, box_width = ob_width ob, box_height = ob_height ob \<rparr>"

definition buildPlatformsAndWalls :: "GameEngine \<Rightarrow> GameEngine" where
  "buildPlatformsAndWalls e =
     (let solid = filter (\<lambda>ob. ob_type ob = Wall \<or> ob_type ob = Door \<or>
                               ob_type ob = Security \<or> ob_type ob = SecurityGuard) (obstacles e)
      in e\<lparr> platforms :=
               map obstacleBounds (filter (\<lambda>ob. ob_width ob > ob_height ob) solid)
               @ [\<lparr> box_x = 0, box_y = groundLevel e, box_width = canvasWidth e, box_height = 20 \<rparr>]
               @ map (\<lambda>b. \<lparr> box_x = br_x b, box_y = br_y b, box_width = br_width b, box_height = 10 \<rparr>)
                   (bridges e),
             walls :=
               map obstacleBounds (filter (\<lambda>ob. \<not> ob_width ob > ob_height ob) solid) \<rparr>)"

definition loadLevel :: "LevelConfig \<Rightarrow> GameEngine \<Rightarrow> GameEngine" where
  "loadLevel config e =
     buildPlatformsAndWalls
       (e\<lparr> obstacles :=
              map (\<lambda>obs. \<lparr> ob_type = cfg_type obs, ob_x = vec_x (cfg_position obs),
                           ob_y = vec_y (cfg_position obs), ob_width = cfg_width obs,
                           ob_height = cfg_height obs, ob_id = cfg_id obs \<rparr>) (cfg_obstacles config),
            checkInGate := cfg_checkInGate config \<rparr>)"

text \<open>
  \<^verbatim>\<open>startLevel(level)\<close>. The clock value \<^verbatim>\<open>Date.now() / 1000\<close> it reads is the
  argument \<open>now\<close>, and the configuration that \<^verbatim>\<open>generateLevelConfig(level)\<close> draws with
  \<^verbatim>\<open>Math.random()\<close> is the argument \<open>config\<close>.
\<close>

definition startLevel :: "int \<Rightarrow> real \<Rightarrow> LevelConfig \<Rightarrow> GameEngine \<Rightarrow> GameEngine" where
  "startLevel level now config e =
     loadLevel config
       ((initializePowerCounts
          (e\<lparr> currentLevel := level,
              gameState := PLAYING,
              passengers := [],
              bridges := [],
              passengersSpawned := 0,
              spawnTimer := 0,
              levelStartTime := now,
              selectedPower := None,
              selectedPassenger := None \<rparr>))\<lparr> levelConfig := Some config \<rparr>)"

definition nextLevel :: "real \<Rightarrow> LevelConfig \<Rightarrow> GameEngine \<Rightarrow> GameEngine" where
  "nextLevel now config e =
     (if currentLevel e < 10 then startLevel (currentLevel e + 1) now config e else e)"

definition pause :: "GameEngine \<Rightarrow> GameEngine" where
  "pause e =
     (if gameState e = PLAYING then e\<lparr> gameState := PAUSED \<rparr>
      else if gameState e = PAUSED then e\<lparr> gameState := PLAYING \<rparr>
      else e)"

text \<open>The decimal digits of a number, for the template string of the passenger's id.\<close>

fun showNat :: "nat \<Rightarrow> string" where
  "showNat n =
     (if n < 10 then [char_of (48 + n)]
      else showNat (n div 10) @ [char_of (48 + n mod 10)])"

declare showNat.simps [simp del]

text \<open>\<^verbatim>\<open>spawnPassenger()\<close>; \<open>rand\<close> is the value of its call of \<^verbatim>\<open>Math.random()\<close>.\<close>

definition spawnPassenger :: "real \<Rightarrow> GameEngine \<Rightarrow> GameEngine" where
  "spawnPassenger rand e =
     (case levelConfig e of
        None \<Rightarrow> e
      | Some config \<Rightarrow>
          let sp = (if rand < 0.15 then Some Bridge
                    else if rand < 0.25 then Some DoorBreaker
                    else if rand < 0.32 then Some SecurityBriber
                    else None);
              passenger = newPassenger (spawnPoint config) sp
                            (''passenger_'' @ showNat (passengersSpawned e))
          in e\<lparr> passengers := passengers e @ [passenger],
                passengersSpawned := Suc (passengersSpawned e) \<rparr>)"

definition removeObstacle :: "Obstacle \<Rightarrow> GameEngine \<Rightarrow> GameEngine" where
  "removeObstacle ob e = e\<lparr> obstacles := filter (\<lambda>other. ob_id other \<noteq> ob_id ob) (obstacles e) \<rparr>"

definition hasBridge :: "Obstacle \<Rightarrow> GameEngine \<Rightarrow> bool" where
  "hasBridge ob e =
     list_ex (\<lambda>b. br_x b \<le> ob_x ob + ob_width ob \<and> br_x b + br_width b \<ge> ob_x ob) (bridges e)"

text \<open>
  \<^verbatim>\<open>handleObstacleInteraction(passenger, obstacle)\<close>: the passenger and the engine after
  the call. In \<^verbatim>\<open>a === b && passenger.activateSuperPower()\<close> the activation runs only
  when the power matches, and it changes the passenger only when it returns true.
\<close>

definition handleObstacleInteraction ::
  "Passenger \<Rightarrow> Obstacle \<Rightarrow> GameEngine \<Rightarrow> Passenger \<times> GameEngine"
where
  "handleObstacleInteraction p ob e =
     (case ob_type ob of
        Wall \<Rightarrow> (reverseDirection p, e)
      | Door \<Rightarrow>
          if superPower p = Some DoorBreaker \<and> snd (activateSuperPower p)
          then (fst (activateSuperPower p), removeObstacle ob e)
          else (reverseDirection p, e)
      | Gap \<Rightarrow>
          if hasBridge ob e then (p, e)
          else if superPower p = Some Bridge \<and> snd (activateSuperPower p)
          then (fst (activateSuperPower p),
                removeObstacle ob
                  (e\<lparr> bridges := bridges e @
                        [\<lparr> br_x = ob_x ob, br_y = ob_y ob + ob_height ob - 10,
                           br_width = ob_width ob \<rparr>] \<rparr>))
          else ((reverseDirection p)\<lparr> isFalling := True \<rparr>, e)
      | Security \<Rightarrow>
          if superPower p = Some SecurityBriber \<and> snd (activateSuperPower p)
          then (fst (activateSuperPower p), removeObstacle ob e)
          else (reverseDirection p, e)
      | SecurityGuard \<Rightarrow>
          if superPower p = Some SecurityBriber \<and> snd (activateSuperPower p)
          then (fst (activateSuperPower p), removeObstacle ob e)
          else (let q = reverseDirection p
                in (q\<lparr> velocity := (velocity q)\<lparr> vec_x := vec_x (velocity q) * 0.3 \<rparr> \<rparr>, e)))"

text \<open>
  One iteration of the loop of \<^verbatim>\<open>handleObstacleCollisions\<close>; \<open>passengerBounds\<close> is
  computed once before the loop.
\<close>

definition collisionStep ::
  "BoundingBox \<Rightarrow> Obstacle \<Rightarrow> Passenger \<times> GameEngine \<Rightarrow> Passenger \<times> GameEngine"
where
  "collisionStep passengerBounds ob st =
     (let p = fst st; e = snd st
      in if ob_type ob = Gap
         then (let gapLeft = ob_x ob;
                   gapRight = ob_x ob + ob_width ob;
                   passengerFeetX = vec_x (position p) + (if direction p = 1 then width p else 0);
                   passengerFeetY = vec_y (position p) + height p
               in if passengerFeetX \<ge> gapLeft \<and> passengerFeetX \<le> gapRight \<and>
                     passengerFeetY \<ge> ob_y ob \<and> passengerFeetY \<le> ob_y ob + ob_height ob
                  then (if \<not> hasBridge ob e then handleObstacleInteraction p ob e else st)
                  else st)
         else if checkAABB passengerBounds (obstacleBounds ob)
              then handleObstacleInteraction p ob e
              else st)"

text \<open>
  \<^verbatim>\<open>handleObstacleCollisions(passenger)\<close>. The \<^verbatim>\<open>for ... of\<close> loop runs over the
  array that \<^verbatim>\<open>this.obstacles\<close> held when the loop began: a removal assigns a new,
  filtered array to the field and leaves the iterated one as it was.
\<close>

definition handleObstacleCollisions :: "Passenger \<Rightarrow> GameEngine \<Rightarrow> Passenger \<times> GameEngine" where
  "handleObstacleCollisions p e = fold (collisionStep (getBounds p)) (obstacles e) (p, e)"

text \<open>The body of the \<^verbatim>\<open>forEach\<close> of \<^verbatim>\<open>update\<close>, for one passenger.\<close>

definition stepPassenger :: "real \<Rightarrow> Passenger \<Rightarrow> GameEngine \<Rightarrow> Passenger \<times> GameEngine" where
  "stepPassenger deltaTime p e =
     (let p1 = Passenger_update deltaTime (platforms e) (walls e)
                 (Some (vec_x (checkInGate e))) (Some (vec_y (checkInGate e))) p;
          (p2, e2) = handleObstacleCollisions p1 e;
          (p3, justReached) = checkReachedGate (checkInGate e2) gateWidth p2
      in (p3, e2))"

fun updatePassengers ::
  "real \<Rightarrow> Passenger list \<Rightarrow> GameEngine \<Rightarrow> Passenger list \<times> GameEngine"
where
  "updatePassengers deltaTime [] e = ([], e)"
| "updatePassengers deltaTime (p # ps) e =
     (let (p', e') = stepPassenger deltaTime p e;
          (ps', e'') = updatePassengers deltaTime ps e'
      in (p' # ps', e''))"

text \<open>The spawning part of \<^verbatim>\<open>update\<close>.\<close>

definition spawnPhase :: "real \<Rightarrow> real \<Rightarrow> GameEngine \<Rightarrow> GameEngine" where
  "spawnPhase deltaTime rand e =
     (if passengersSpawned e < totalPassengers
      then (let e1 = e\<lparr> spawnTimer := spawnTimer e + deltaTime \<rparr>
            in if spawnTimer e1 \<ge> spawnInterval
               then (spawnPassenger rand e1)\<lparr> spawnTimer := 0 \<rparr>
               else e1)
      else e)"

text \<open>The win condition at the end of \<^verbatim>\<open>update\<close>.\<close>

definition checkWinCondition :: "GameEngine \<Rightarrow> GameEngine" where
  "checkWinCondition e =
     (let activePassengers = filter (\<lambda>p. isActive p \<and> \<not> hasReachedGate p) (passengers e);
          reachedGate = length (filter hasReachedGate (passengers e))
      in if passengersSpawned e \<ge> totalPassengers \<and> length activePassengers = 0
         then (if reachedGate \<ge> 50
               then (if currentLevel e \<ge> 10
                     then e\<lparr> gameState := VICTORY \<rparr>
                     else e\<lparr> gameState := LEVEL_COMPLETE \<rparr>)
               else e\<lparr> gameState := GAME_OVER \<rparr>)
         else e)"

text \<open>The part of \<^verbatim>\<open>update\<close> after the time limit check.\<close>

definition tick :: "real \<Rightarrow> real \<Rightarrow> GameEngine \<Rightarrow> GameEngine" where
  "tick deltaTime rand e =
     (let e1 = spawnPhase deltaTime rand e;
          e2 = buildPlatformsAndWalls e1;
          (ps, e3) = updatePassengers deltaTime (passengers e2) e2
      in checkWinCondition (e3\<lparr> passengers := ps \<rparr>))"

text \<open>
  \<^verbatim>\<open>update(deltaTime)\<close>; \<open>now\<close> is the value of \<^verbatim>\<open>Date.now() / 1000\<close> at the call and
  \<open>rand\<close> the value \<^verbatim>\<open>Math.random()\<close> gives if a passenger is spawned.
\<close>

definition update :: "real \<Rightarrow> real \<Rightarrow> real \<Rightarrow> GameEngine \<Rightarrow> GameEngine" where
  "update deltaTime now rand e =
     (if gameState e \<noteq> PLAYING then e
      else
        let elapsed = now - levelStartTime e
        in if elapsed \<ge> levelTimeLimit
           then e\<lparr> gameState := GAME_OVER \<rparr>
           else tick deltaTime rand e)"

subsection \<open>Clicks\<close>

definition handleUIClick :: "real \<Rightarrow> real \<Rightarrow> real \<Rightarrow> GameEngine \<Rightarrow> GameEngine" where
  "handleUIClick x y uiY e =
     (let iconSize = 32;
          iconSpacing = 40;
          iconY = uiY + 40
      in if y \<ge> iconY \<and> y \<le> iconY + iconSize
         then (if x \<ge> 10 \<and> x \<le> 10 + iconSize
               then (if getCount e Bridge > 0 then e\<lparr> selectedPower := Some Bridge \<rparr> else e)
               else if x \<ge> 10 + iconSpacing \<and> x \<le> 10 + iconSpacing + iconSize
               then (if getCount e DoorBreaker > 0 then e\<lparr> selectedPower := Some DoorBreaker \<rparr> else e)
               else if x \<ge> 10 + iconSpacing * 2 \<and> x \<le> 10 + iconSpacing * 2 + iconSize
               then (if getCount e SecurityBriber > 0
                     then e\<lparr> selectedPower := Some SecurityBriber \<rparr> else e)
               else if x \<ge> canvasWidth e - 60 \<and> x \<le> canvasWidth e - 60 + iconSize
               then e\<lparr> selectedPower := None \<rparr>
               else e\<lparr> selectedPower := None \<rparr>)
         else e\<lparr> selectedPower := None \<rparr>)"

text \<open>
  The loop of \<^verbatim>\<open>tryActivatePowerAtPosition\<close> over the obstacles. It returns at the
  first obstacle within 100 pixels that matches the power and for which the activation
  succeeds; a failed activation changes nothing and the loop goes on.
\<close>

fun tryActivateLoop ::
  "real \<Rightarrow> real \<Rightarrow> Obstacle list \<Rightarrow> Passenger \<Rightarrow> GameEngine \<Rightarrow> Passenger \<times> GameEngine"
where
  "tryActivateLoop x y [] p e = (p, e)"
| "tryActivateLoop x y (ob # rest) p e =
     (let distance = sqrt ((x - (ob_x ob + ob_width ob / 2))\<^sup>2 +
                           (y - (ob_y ob + ob_height ob / 2))\<^sup>2)
      in if distance < 100
         then (let shouldActivate =
                     (case superPower p of
                        Some Bridge \<Rightarrow> ob_type ob = Gap
                      | Some DoorBreaker \<Rightarrow> ob_type ob = Door
                      | Some SecurityBriber \<Rightarrow> ob_type ob = Security
                      | None \<Rightarrow> False)
               in if shouldActivate \<and> snd (activateSuperPower p)
                  then (let (p1, e1) = handleObstacleInteraction (fst (activateSuperPower p)) ob e
                        in (p1\<lparr> superPower := None, color := ''#2196F3'' \<rparr>,
                            e1\<lparr> selectedPassenger := None \<rparr>))
                  else tryActivateLoop x y rest p e)
         else tryActivateLoop x y rest p e)"

text \<open>
  \<^verbatim>\<open>tryActivatePowerAtPosition(passenger, x, y)\<close> for the passenger at index \<open>i\<close>. The
  source is always given an object of the list; an index outside the list stands for no
  object and leaves the engine as it is.
\<close>

definition tryActivatePowerAtPosition :: "nat \<Rightarrow> real \<Rightarrow> real \<Rightarrow> GameEngine \<Rightarrow> GameEngine" where
  "tryActivatePowerAtPosition i x y e =
     (if i < length (passengers e)
      then (let p = passengers e ! i
            in if superPower p = None \<or> powerCooldown p > 0 then e
               else (let (p', e') = tryActivateLoop x y (obstacles e) p e
                     in e'\<lparr> passengers := (passengers e')[i := p'] \<rparr>))
      else e)"

text \<open>The index of the first element that satisfies a predicate (\<^verbatim>\<open>Array.find\<close>).\<close>

fun findIndex :: "('a \<Rightarrow> bool) \<Rightarrow> 'a list \<Rightarrow> nat option" where
  "findIndex P [] = None"
| "findIndex P (a # as) = (if P a then Some 0 else map_option Suc (findIndex P as))"

text \<open>The test of the first loop of \<^verbatim>\<open>handleClick\<close>: a click on a passenger with a power.\<close>

definition clickedPassenger :: "real \<Rightarrow> real \<Rightarrow> Passenger \<Rightarrow> bool" where
  "clickedPassenger x y p \<longleftrightarrow>
     \<not> (\<not> isActive p \<or> hasReachedGate p \<or> superPower p = None) \<and>
     (let bounds = getBounds p;
          centerX = box_x bounds + box_width bounds / 2;
          starY = box_y bounds - 15;
          starSize = 14;
          clickedBody = (x \<ge> box_x bounds \<and> x \<le> box_x bounds + box_width bounds \<and>
                         y \<ge> box_y bounds \<and> y \<le> box_y bounds + box_height bounds);
          clickedStar = (sqrt ((x - centerX)\<^sup>2 + (y - starY)\<^sup>2) \<le> starSize)
      in clickedBody \<or> clickedStar)"

text \<open>The predicate of the \<^verbatim>\<open>find\<close> that looks for a passenger to give the power to.\<close>

definition nearestCandidate :: "real \<Rightarrow> real \<Rightarrow> Passenger \<Rightarrow> bool" where
  "nearestCandidate x y p \<longleftrightarrow>
     isActive p \<and> \<not> hasReachedGate p \<and> superPower p = None \<and>
     sqrt ((vec_x (position p) - x)\<^sup>2 + (vec_y (position p) - y)\<^sup>2) < 50"

text \<open>The part of \<^verbatim>\<open>handleClick\<close> that assigns the selected power, if it does.\<close>

definition assignTarget :: "real \<Rightarrow> real \<Rightarrow> GameEngine \<Rightarrow> (SuperPower \<times> nat) option" where
  "assignTarget x y e =
     (case selectedPower e of
        None \<Rightarrow> None
      | Some sp \<Rightarrow>
          if getCount e sp > 0
          then map_option (\<lambda>j. (sp, j)) (findIndex (nearestCandidate x y) (passengers e))
          else None)"

text \<open>
  \<^verbatim>\<open>handleClick(x, y)\<close>; \<open>now\<close> and \<open>config\<close> are what \<^verbatim>\<open>startLevel\<close> reads if the click
  starts a level.
\<close>

definition handleClick :: "real \<Rightarrow> real \<Rightarrow> real \<Rightarrow> LevelConfig \<Rightarrow> GameEngine \<Rightarrow> GameEngine" where
  "handleClick x y now config e =
     (if gameState e = MENU then startLevel 1 now config e
      else if gameState e = LEVEL_COMPLETE then nextLevel now config e
      else if gameState e = GAME_OVER \<or> gameState e = VICTORY then e\<lparr> gameState := MENU \<rparr>
      else if gameState e \<noteq> PLAYING then e
      else
        let uiY = canvasHeight e - uiHeight
        in if y \<ge> uiY then handleUIClick x y uiY e
           else
             (case findIndex (clickedPassenger x y) (passengers e) of
                Some i \<Rightarrow> tryActivatePowerAtPosition i x y (e\<lparr> selectedPassenger := Some i \<rparr>)
              | None \<Rightarrow>
                 (case assignTarget x y e of
                    Some (sp, j) \<Rightarrow>
                      e\<lparr> passengers :=
                           (passengers e)[j := (passengers e ! j)
                              \<lparr> superPower := Some sp, color := getColorForPower (Some sp) \<rparr>],
                         powerCounts := (powerCounts e)(sp \<mapsto> max 0 (getCount e sp - 1)),
                         selectedPower := None \<rparr>
                  | None \<Rightarrow>
                     (case selectedPassenger e of
                        Some i \<Rightarrow> tryActivatePowerAtPosition i x y e
                      | None \<Rightarrow> e\<lparr> selectedPassenger := None \<rparr>))))"

section \<open>The later build of the engine\<close>





section \<open>Derived notions and concrete states\<close>

text \<open>
  The fields of the engine other than \<^verbatim>\<open>obstacles\<close> and \<^verbatim>\<open>bridges\<close>, the two
  that the handling of an obstacle writes.
\<close>

definition otherFields ::
  "GameEngine \<Rightarrow> real \<times> real \<times> GameState \<times> Passenger list \<times> int \<times> LevelConfig option \<times> real \<times> nat
     \<times> real \<times> real \<times> Vector2 \<times> BoundingBox list \<times> BoundingBox list \<times> nat option
     \<times> SuperPower option \<times> (SuperPower \<rightharpoonup> int)"
where
  "otherFields e =
     (canvasWidth e, canvasHeight e, gameState e, passengers e, currentLevel e, levelConfig e,
      levelStartTime e, passengersSpawned e, spawnTimer e, groundLevel e, checkInGate e,
      platforms e, walls e, selectedPassenger e, selectedPower e, powerCounts e)"

text \<open>
  The words of the win and lose rule: the agents that are active and unresolved, the
  agents that reached the gate, and all agents being resolved.
\<close>

definition activeCount :: "GameEngine \<Rightarrow> nat" where
  "activeCount e = length (filter (\<lambda>p. isActive p \<and> \<not> hasReachedGate p) (passengers e))"

definition reachedCount :: "GameEngine \<Rightarrow> nat" where
  "reachedCount e = length (filter hasReachedGate (passengers e))"

definition allResolved :: "GameEngine \<Rightarrow> bool" where
  "allResolved e \<longleftrightarrow> passengersSpawned e = totalPassengers \<and> activeCount e = 0"

text \<open>No count of the inventory is negative.\<close>

definition countsNonNegative :: "GameEngine \<Rightarrow> bool" where
  "countsNonNegative e \<longleftrightarrow>
     0 \<le> getCount e Bridge \<and> 0 \<le> getCount e DoorBreaker \<and> 0 \<le> getCount e SecurityBriber"

text \<open>
  A pause-aware clock, in the words of the specification: the calls of \<^verbatim>\<open>pause()\<close>
  since the level started are given by the clock values at which they were made, the
  first of them pausing a playing game. The paused time up to \<open>now\<close> is the sum of the
  closed intervals plus the open one, and the pause-adjusted elapsed time subtracts it.
\<close>

fun pausedDuration :: "real list \<Rightarrow> real \<Rightarrow> real" where
  "pausedDuration [] now = 0"
| "pausedDuration [t] now = now - t"
| "pausedDuration (t # t' # rest) now = (t' - t) + pausedDuration rest now"

definition pauseAdjustedElapsed :: "real \<Rightarrow> real list \<Rightarrow> real \<Rightarrow> real" where
  "pauseAdjustedElapsed start pauseCalls now = now - start - pausedDuration pauseCalls now"

text \<open>The engine after as many calls of \<^verbatim>\<open>pause()\<close> as the list has clock values.\<close>

fun pauseCalls :: "real list \<Rightarrow> GameEngine \<Rightarrow> GameEngine" where
  "pauseCalls [] e = e"
| "pauseCalls (t # ts) e = pauseCalls ts (pause e)"

text \<open>The constructor, for a canvas of the given width and height.\<close>

definition newGameEngine :: "real \<Rightarrow> real \<Rightarrow> GameEngine" where
  "newGameEngine w h =
     initializePowerCounts
       \<lparr> canvasWidth = w, canvasHeight = h, gameState = MENU, passengers = [], bridges = [],
         currentLevel = 1, levelConfig = None, levelStartTime = 0, passengersSpawned = 0,
         spawnTimer = 0, groundLevel = h - uiHeight - 20,
         checkInGate = \<lparr> vec_x = 0, vec_y = 0 \<rparr>, obstacles = [], platforms = [], walls = [],
         selectedPassenger = None, selectedPower = None, powerCounts = Map.empty \<rparr>"

text \<open>
  A small level on the canvas of \<^verbatim>\<open>index.js\<close> (1200 by 700): the spawn platform, one
  vertical wall, one gap in front of the gate and one door, placed where the generator
  can place them.
\<close>

definition demoConfig :: LevelConfig where
  "demoConfig =
     \<lparr> levelNumber = 1,
       cfg_obstacles =
         [\<lparr> cfg_type = Wall, cfg_position = \<lparr> vec_x = 0, vec_y = 50 \<rparr>,
            cfg_width = 150, cfg_height = 20, cfg_id = ''spawn_platform'' \<rparr>,
          \<lparr> cfg_type = Wall, cfg_position = \<lparr> vec_x = 320, vec_y = 100 \<rparr>,
            cfg_width = 20, cfg_height = 120, cfg_id = ''wall_0'' \<rparr>,
          \<lparr> cfg_type = Gap, cfg_position = \<lparr> vec_x = 1040, vec_y = 530 \<rparr>,
            cfg_width = 80, cfg_height = 20, cfg_id = ''gap_4'' \<rparr>,
          \<lparr> cfg_type = Door, cfg_position = \<lparr> vec_x = 600, vec_y = 200 \<rparr>,
            cfg_width = 20, cfg_height = 60, cfg_id = ''special_0'' \<rparr>],
       spawnPoint = \<lparr> vec_x = 50, vec_y = 18 \<rparr>,
       cfg_checkInGate = \<lparr> vec_x = 1050, vec_y = 530 \<rparr>,
       difficulty = 1 \<rparr>"

text \<open>The engine after a click on the menu at clock value 0.\<close>

definition demoEngine :: GameEngine where
  "demoEngine = handleClick 600 300 0 demoConfig (newGameEngine 1200 700)"

definition tallWall :: Obstacle where
  "tallWall = \<lparr> ob_type = Wall, ob_x = 320, ob_y = 100, ob_width = 20, ob_height = 120,
                ob_id = ''wall_0'' \<rparr>"

definition gateGap :: Obstacle where
  "gateGap = \<lparr> ob_type = Gap, ob_x = 1040, ob_y = 530, ob_width = 80, ob_height = 20,
                ob_id = ''gap_4'' \<rparr>"

text \<open>The gate of the small level.\<close>

definition gateDemo :: Vector2 where
  "gateDemo = \<lparr> vec_x = 1050, vec_y = 530 \<rparr>"

text \<open>A passenger whose power is cooling down.\<close>

definition coolingPassenger :: Passenger where
  "coolingPassenger =
     (newPassenger \<lparr> vec_x = 50, vec_y = 18 \<rparr> (Some DoorBreaker) ''passenger_0'')
       \<lparr> powerCooldown := 1 / 2 \<rparr>"

text \<open>A passenger that walks on the ground into the gate.\<close>

definition arrivingPassenger :: Passenger where
  "arrivingPassenger = newPassenger \<lparr> vec_x = 1060, vec_y = 528 \<rparr> None ''passenger_0''"

text \<open>A door breaker, ready to use its power, in contact with the vertical wall.\<close>

definition breakerPassenger :: Passenger where
  "breakerPassenger = newPassenger \<lparr> vec_x = 300, vec_y = 148 \<rparr> (Some DoorBreaker) ''passenger_0''"


text \<open>
  A passenger without a power that falls towards the gap in front of the gate, as the
  only passenger of the small level so far, and the same passenger as it is one tick
  later: inside the gate, with its feet 9 pixels below the top of the gate.
\<close>

definition fallingPassenger :: Passenger where
  "fallingPassenger =
     (newPassenger \<lparr> vec_x = 1060, vec_y = 497 \<rparr> None ''passenger_0'')
       \<lparr> velocity := \<lparr> vec_x = 50, vec_y = 1775 / 3 \<rparr>, isFalling := True \<rparr>"

definition fallingEngine :: GameEngine where
  "fallingEngine = demoEngine\<lparr> passengers := [fallingPassenger], passengersSpawned := 1 \<rparr>"

definition arrivedPassenger :: Passenger where
  "arrivedPassenger =
     (newPassenger \<lparr> vec_x = 1060 + 5 / 6, vec_y = 507 \<rparr> None ''passenger_0'')
       \<lparr> velocity := \<lparr> vec_x = 50, vec_y = 600 \<rparr>, isFalling := True, direction := - 1,
         hasReachedGate := True, isActive := False \<rparr>"

text \<open>
  The small level with one passenger without a power at the spawn point, no bridge power
  left in the inventory, and the bridge power selected or not.
\<close>

definition emptyBridgeEngine :: "SuperPower option \<Rightarrow> GameEngine" where
  "emptyBridgeEngine sel =
     demoEngine\<lparr> passengers := [newPassenger \<lparr> vec_x = 50, vec_y = 18 \<rparr> None ''passenger_0''],
                 passengersSpawned := 1,
                 powerCounts := [Bridge \<mapsto> 0, DoorBreaker \<mapsto> 8, SecurityBriber \<mapsto> 6],
                 selectedPower := sel \<rparr>"

text \<open>
  The small level after a bridge was built over an earlier gap, with a bridge builder
  falling towards the gap in front of the gate.
\<close>

definition builderEngine :: GameEngine where
  "builderEngine =
     demoEngine\<lparr> passengers := [newPassenger \<lparr> vec_x = 1030, vec_y = 507 \<rparr> (Some Bridge) ''passenger_0''],
                 passengersSpawned := 1,
                 bridges := [\<lparr> br_x = 200, br_y = 540, br_width = 60 \<rparr>] \<rparr>"

section \<open>The physics step keeps the gate flags and the cooldown\<close>

lemma platformLoop_keeps:
  "hasReachedGate (fst (platformLoop feetY tb pls st)) = hasReachedGate (fst st) \<and>
   isActive (fst (platformLoop feetY tb pls st)) = isActive (fst st) \<and>
   powerCooldown (fst (platformLoop feetY tb pls st)) = powerCooldown (fst st)"
proof (induction pls arbitrary: st)
  case Nil
  show ?case by simp
next
  case (Cons pl pls)
  obtain p n b where st: "st = (p, n, b)" by (cases st)
  show ?case unfolding st by (simp add: Cons.IH)
qed

lemma wallLoopY_keeps:
  "hasReachedGate (fst (wallLoopY tb ws st)) = hasReachedGate (fst st) \<and>
   isActive (fst (wallLoopY tb ws st)) = isActive (fst st) \<and>
   powerCooldown (fst (wallLoopY tb ws st)) = powerCooldown (fst st)"
proof (induction ws arbitrary: st)
  case Nil
  show ?case by simp
next
  case (Cons w ws)
  obtain p n b where st: "st = (p, n, b)" by (cases st)
  show ?case unfolding st by (simp add: Cons.IH)
qed

lemma steer_keeps:
  "hasReachedGate (steer dt tx ty p) = hasReachedGate p \<and>
   isActive (steer dt tx ty p) = isActive p \<and>
   powerCooldown (steer dt tx ty p) = powerCooldown p"
  by (simp add: steer_def Let_def split: option.splits)

lemma moveHorizontal_keeps:
  "hasReachedGate (moveHorizontal dx ws p) = hasReachedGate p \<and>
   isActive (moveHorizontal dx ws p) = isActive p \<and>
   powerCooldown (moveHorizontal dx ws p) = powerCooldown p"
  by (simp add: moveHorizontal_def Let_def reverseDirection_def)

lemma moveVertical_keeps:
  "hasReachedGate (moveVertical dy pls ws p) = hasReachedGate p \<and>
   isActive (moveVertical dy pls ws p) = isActive p \<and>
   powerCooldown (moveVertical dy pls ws p) = powerCooldown p"
  by (simp add: moveVertical_def Let_def wallLoopY_keeps platformLoop_keeps)

lemma Passenger_update_powerCooldown:
  "powerCooldown (Passenger_update dt pls ws tx ty p) =
     (if isActive p \<and> \<not> hasReachedGate p \<and> powerCooldown p > 0
      then powerCooldown p - dt else powerCooldown p)"
  by (simp add: Passenger_update_def Let_def cooldownStep_def moveVertical_keeps
        moveHorizontal_keeps steer_keeps)

lemma Passenger_update_hasReachedGate:
  "hasReachedGate (Passenger_update dt pls ws tx ty p) = hasReachedGate p"
  by (simp add: Passenger_update_def Let_def cooldownStep_def moveVertical_keeps
        moveHorizontal_keeps steer_keeps)

section \<open>Calls of \<^verbatim>\<open>checkReachedGate\<close> in a sequence of calls\<close>

lemma doCall_hasReachedGate:
  "hasReachedGate p \<Longrightarrow> hasReachedGate (fst (doCall c p))"
  by (cases c)
     (simp_all add: Passenger_update_hasReachedGate activateSuperPower_def stopUsingPower_def
        checkReachedGate_def reverseDirection_def)

lemma reached_stays:
  "hasReachedGate p \<Longrightarrow> hasReachedGate (doCalls cs p)"
  by (induction cs arbitrary: p) (simp_all add: doCall_hasReachedGate)

lemma checkReachedGate_reached:
  "hasReachedGate p \<Longrightarrow> checkReachedGate g w p = (p, False)"
  by (simp add: checkReachedGate_def)

lemma checkReachedGate_true:
  "snd (checkReachedGate g w p) \<Longrightarrow>
     hasReachedGate (fst (checkReachedGate g w p)) \<and> \<not> isActive (fst (checkReachedGate g w p))"
  by (simp add: checkReachedGate_def Let_def split: if_splits)

lemma reached_returns_false:
  "hasReachedGate p \<Longrightarrow> b \<in> set (gateReturns cs p) \<Longrightarrow> \<not> b"
proof (induction cs arbitrary: p)
  case Nil
  then show ?case by simp
next
  case (Cons c cs)
  have next_reached: "hasReachedGate (fst (doCall c p))"
    using Cons.prems(1) by (rule doCall_hasReachedGate)
  show ?case
  proof (cases c)
    case (CallCheckReachedGate g w)
    with Cons.prems Cons.IH [of p] show ?thesis
      by (auto simp: checkReachedGate_reached)
  qed (use Cons.prems Cons.IH [OF next_reached] in auto)
qed

lemma filter_all_false:
  "(\<And>b. b \<in> set bs \<Longrightarrow> \<not> b) \<Longrightarrow> filter (\<lambda>b. b) bs = []"
  by (induction bs) auto

lemma gateReturns_at_most_one:
  "length (filter (\<lambda>b. b) (gateReturns cs p)) \<le> 1"
proof (induction cs arbitrary: p)
  case Nil
  show ?case by simp
next
  case (Cons c cs)
  show ?case
  proof (cases c)
    case (CallCheckReachedGate g w)
    show ?thesis
    proof (cases "snd (checkReachedGate g w p)")
      case True
      then have "hasReachedGate (fst (checkReachedGate g w p))"
        using checkReachedGate_true by blast
      then have "filter (\<lambda>b. b) (gateReturns cs (fst (checkReachedGate g w p))) = []"
        using reached_returns_false filter_all_false by blast
      with True CallCheckReachedGate show ?thesis by simp
    next
      case False
      with CallCheckReachedGate Cons.IH show ?thesis by simp
    qed
  qed (use Cons.IH in simp_all)
qed

section \<open>What a tick leaves alone\<close>

lemma handleObstacleInteraction_otherFields:
  "otherFields (snd (handleObstacleInteraction p ob e)) = otherFields e"
  by (cases "ob_type ob")
     (simp_all add: handleObstacleInteraction_def otherFields_def removeObstacle_def Let_def)

lemma handleObstacleInteraction_bridges:
  "prefix (bridges e) (bridges (snd (handleObstacleInteraction p ob e)))"
  by (cases "ob_type ob")
     (simp_all add: handleObstacleInteraction_def removeObstacle_def Let_def)

lemma collisionStep_otherFields:
  "otherFields (snd (collisionStep pb ob st)) = otherFields (snd st)"
  by (simp add: collisionStep_def Let_def handleObstacleInteraction_otherFields)

lemma collisionStep_bridges:
  "prefix (bridges (snd st)) (bridges (snd (collisionStep pb ob st)))"
  by (simp add: collisionStep_def Let_def handleObstacleInteraction_bridges)

lemma collisionFold_otherFields:
  "otherFields (snd (fold (collisionStep pb) obs st)) = otherFields (snd st)"
  by (induction obs arbitrary: st) (simp_all add: collisionStep_otherFields)

lemma collisionFold_bridges:
  "prefix (bridges (snd st)) (bridges (snd (fold (collisionStep pb) obs st)))"
proof (induction obs arbitrary: st)
  case Nil
  show ?case by simp
next
  case (Cons ob obs)
  have "prefix (bridges (snd st)) (bridges (snd (collisionStep pb ob st)))"
    by (rule collisionStep_bridges)
  also have "prefix \<dots> (bridges (snd (fold (collisionStep pb) obs (collisionStep pb ob st))))"
    by (rule Cons.IH)
  finally show ?case by simp
qed

lemma stepPassenger_snd:
  "snd (stepPassenger dt p e) =
     snd (handleObstacleCollisions
            (Passenger_update dt (platforms e) (walls e)
               (Some (vec_x (checkInGate e))) (Some (vec_y (checkInGate e))) p) e)"
  by (simp add: stepPassenger_def Let_def split: prod.splits)

lemma stepPassenger_otherFields:
  "otherFields (snd (stepPassenger dt p e)) = otherFields e"
  by (simp add: stepPassenger_snd handleObstacleCollisions_def collisionFold_otherFields)

lemma stepPassenger_bridges:
  "prefix (bridges e) (bridges (snd (stepPassenger dt p e)))"
  using collisionFold_bridges [of "(q, e)" for q]
  by (simp add: stepPassenger_snd handleObstacleCollisions_def)

lemma updatePassengers_Cons:
  "updatePassengers dt (p # ps) e =
     (fst (stepPassenger dt p e) # fst (updatePassengers dt ps (snd (stepPassenger dt p e))),
      snd (updatePassengers dt ps (snd (stepPassenger dt p e))))"
  by (simp add: Let_def split: prod.splits)

lemma updatePassengers_otherFields:
  "otherFields (snd (updatePassengers dt ps e)) = otherFields e"
  by (induction ps arbitrary: e)
     (simp_all add: updatePassengers_Cons stepPassenger_otherFields del: updatePassengers.simps(2))

lemma updatePassengers_bridges:
  "prefix (bridges e) (bridges (snd (updatePassengers dt ps e)))"
proof (induction ps arbitrary: e)
  case Nil
  show ?case by simp
next
  case (Cons p ps)
  have "prefix (bridges e) (bridges (snd (stepPassenger dt p e)))"
    by (rule stepPassenger_bridges)
  also have "prefix \<dots> (bridges (snd (updatePassengers dt ps (snd (stepPassenger dt p e)))))"
    by (rule Cons.IH)
  finally show ?case by (simp add: updatePassengers_Cons del: updatePassengers.simps(2))
qed

lemma updatePassengers_length:
  "length (fst (updatePassengers dt ps e)) = length ps"
  by (induction ps arbitrary: e)
     (simp_all add: updatePassengers_Cons del: updatePassengers.simps(2))

lemma spawnPhase_keeps:
  "bridges (spawnPhase dt rand e) = bridges e \<and>
   gameState (spawnPhase dt rand e) = gameState e \<and>
   currentLevel (spawnPhase dt rand e) = currentLevel e \<and>
   levelStartTime (spawnPhase dt rand e) = levelStartTime e \<and>
   powerCounts (spawnPhase dt rand e) = powerCounts e"
  by (simp add: spawnPhase_def spawnPassenger_def Let_def split: option.splits)

lemma spawnPhase_spawned:
  "passengersSpawned e \<le> totalPassengers \<Longrightarrow>
     passengersSpawned (spawnPhase dt rand e) \<le> totalPassengers"
  by (simp add: spawnPhase_def spawnPassenger_def Let_def split: option.splits)

text \<open>The engine on which the win condition of a tick is evaluated.\<close>

lemma tick_eq:
  "tick dt rand e =
     checkWinCondition
       ((snd (updatePassengers dt (passengers (spawnPhase dt rand e))
                (buildPlatformsAndWalls (spawnPhase dt rand e))))
          \<lparr> passengers := fst (updatePassengers dt (passengers (spawnPhase dt rand e))
                (buildPlatformsAndWalls (spawnPhase dt rand e))) \<rparr>)"
  by (simp add: tick_def Let_def buildPlatformsAndWalls_def split: prod.splits)

lemma checkWinCondition_keeps:
  "bridges (checkWinCondition e) = bridges e \<and>
   passengers (checkWinCondition e) = passengers e \<and>
   passengersSpawned (checkWinCondition e) = passengersSpawned e \<and>
   currentLevel (checkWinCondition e) = currentLevel e \<and>
   levelStartTime (checkWinCondition e) = levelStartTime e \<and>
   powerCounts (checkWinCondition e) = powerCounts e"
  by (simp add: checkWinCondition_def Let_def)

lemma tick_bridges: "prefix (bridges e) (bridges (tick dt rand e))"
  using updatePassengers_bridges [of "buildPlatformsAndWalls (spawnPhase dt rand e)" dt
          "passengers (spawnPhase dt rand e)"]
  by (simp add: tick_eq checkWinCondition_keeps spawnPhase_keeps buildPlatformsAndWalls_def Let_def)

lemma otherFields_eqD:
  "otherFields a = otherFields b \<Longrightarrow>
     gameState a = gameState b \<and> passengersSpawned a = passengersSpawned b \<and>
     currentLevel a = currentLevel b \<and> levelStartTime a = levelStartTime b \<and>
     powerCounts a = powerCounts b \<and> selectedPower a = selectedPower b \<and>
     passengers a = passengers b"
  by (simp add: otherFields_def)

lemma loop_engine_keeps:
  "gameState (snd (updatePassengers dt ps e)) = gameState e \<and>
   passengersSpawned (snd (updatePassengers dt ps e)) = passengersSpawned e \<and>
   currentLevel (snd (updatePassengers dt ps e)) = currentLevel e \<and>
   levelStartTime (snd (updatePassengers dt ps e)) = levelStartTime e \<and>
   powerCounts (snd (updatePassengers dt ps e)) = powerCounts e"
  using otherFields_eqD [OF updatePassengers_otherFields [of dt ps e]] by simp

lemma buildPlatformsAndWalls_keeps:
  "gameState (buildPlatformsAndWalls e) = gameState e \<and>
   passengersSpawned (buildPlatformsAndWalls e) = passengersSpawned e \<and>
   currentLevel (buildPlatformsAndWalls e) = currentLevel e \<and>
   levelStartTime (buildPlatformsAndWalls e) = levelStartTime e \<and>
   powerCounts (buildPlatformsAndWalls e) = powerCounts e \<and>
   passengers (buildPlatformsAndWalls e) = passengers e \<and>
   bridges (buildPlatformsAndWalls e) = bridges e"
  by (simp add: buildPlatformsAndWalls_def Let_def)

lemma update_bridges: "prefix (bridges e) (bridges (update dt now rand e))"
  by (simp add: update_def Let_def tick_bridges)

lemma update_powerCounts: "powerCounts (update dt now rand e) = powerCounts e"
  by (simp add: update_def Let_def tick_eq checkWinCondition_keeps loop_engine_keeps
        buildPlatformsAndWalls_keeps spawnPhase_keeps)

lemma pauseCalls_levelStartTime: "levelStartTime (pauseCalls ts e) = levelStartTime e"
  by (induction ts arbitrary: e) (simp_all add: pause_def)

section \<open>The win condition of a tick\<close>

text \<open>The win condition, on an engine that is playing\<close>

lemma checkWinCondition_outcome:
  assumes "gameState e = PLAYING" and "passengersSpawned e \<le> totalPassengers"
  shows "(gameState (checkWinCondition e) = GAME_OVER \<longleftrightarrow>
            allResolved (checkWinCondition e) \<and> reachedCount (checkWinCondition e) < 50) \<and>
         (gameState (checkWinCondition e) = LEVEL_COMPLETE \<longleftrightarrow>
            allResolved (checkWinCondition e) \<and> reachedCount (checkWinCondition e) \<ge> 50 \<and>
            currentLevel (checkWinCondition e) < 10) \<and>
         (gameState (checkWinCondition e) = VICTORY \<longleftrightarrow>
            allResolved (checkWinCondition e) \<and> reachedCount (checkWinCondition e) \<ge> 50 \<and>
            currentLevel (checkWinCondition e) \<ge> 10) \<and>
         (gameState (checkWinCondition e) = PLAYING \<longleftrightarrow> \<not> allResolved (checkWinCondition e))"
proof -
  have same: "allResolved (checkWinCondition e) = allResolved e"
             "reachedCount (checkWinCondition e) = reachedCount e"
             "currentLevel (checkWinCondition e) = currentLevel e"
    by (simp_all add: allResolved_def reachedCount_def activeCount_def checkWinCondition_keeps)
  have cond: "passengersSpawned e \<ge> totalPassengers \<and>
                length (filter (\<lambda>p. isActive p \<and> \<not> hasReachedGate p) (passengers e)) = 0
              \<longleftrightarrow> allResolved e"
    using assms(2) by (auto simp: allResolved_def activeCount_def)
  show ?thesis
  proof (cases "allResolved e")
    case True
    with cond assms(1) show ?thesis
      unfolding same by (simp add: checkWinCondition_def Let_def reachedCount_def)
  next
    case False
    with cond assms(1) show ?thesis
      unfolding same by (simp add: checkWinCondition_def Let_def reachedCount_def)
  qed
qed

lemma tick_precondition:
  assumes "gameState e = PLAYING" and "passengersSpawned e \<le> totalPassengers"
  shows "gameState ((snd (updatePassengers dt (passengers (spawnPhase dt rand e))
                (buildPlatformsAndWalls (spawnPhase dt rand e))))
          \<lparr> passengers := fst (updatePassengers dt (passengers (spawnPhase dt rand e))
                (buildPlatformsAndWalls (spawnPhase dt rand e))) \<rparr>) = PLAYING"
    and "passengersSpawned ((snd (updatePassengers dt (passengers (spawnPhase dt rand e))
                (buildPlatformsAndWalls (spawnPhase dt rand e))))
          \<lparr> passengers := fst (updatePassengers dt (passengers (spawnPhase dt rand e))
                (buildPlatformsAndWalls (spawnPhase dt rand e))) \<rparr>) \<le> totalPassengers"
  using assms spawnPhase_spawned [OF assms(2), of dt rand]
  by (simp_all add: loop_engine_keeps buildPlatformsAndWalls_keeps spawnPhase_keeps)

lemma tick_outcome:
  assumes "gameState e = PLAYING" and "passengersSpawned e \<le> totalPassengers"
  shows "(gameState (tick dt rand e) = GAME_OVER \<longleftrightarrow>
            allResolved (tick dt rand e) \<and> reachedCount (tick dt rand e) < 50) \<and>
         (gameState (tick dt rand e) = LEVEL_COMPLETE \<longleftrightarrow>
            allResolved (tick dt rand e) \<and> reachedCount (tick dt rand e) \<ge> 50 \<and>
            currentLevel (tick dt rand e) < 10) \<and>
         (gameState (tick dt rand e) = VICTORY \<longleftrightarrow>
            allResolved (tick dt rand e) \<and> reachedCount (tick dt rand e) \<ge> 50 \<and>
            currentLevel (tick dt rand e) \<ge> 10) \<and>
         (gameState (tick dt rand e) = PLAYING \<longleftrightarrow> \<not> allResolved (tick dt rand e))"
  unfolding tick_eq
  by (rule checkWinCondition_outcome [OF tick_precondition [OF assms]])

section \<open>What a click leaves alone\<close>

lemma tryActivateLoop_otherFields:
  "otherFields ((snd (tryActivateLoop x y obs p e))\<lparr> selectedPassenger := sel \<rparr>)
     = otherFields (e\<lparr> selectedPassenger := sel \<rparr>)"
proof (induction obs)
  case Nil
  show ?case by simp
next
  case (Cons ob obs)
  have "otherFields ((snd (handleObstacleInteraction q ob e))\<lparr> selectedPassenger := sel \<rparr>)
          = otherFields (e\<lparr> selectedPassenger := sel \<rparr>)" for q
    using handleObstacleInteraction_otherFields [of q ob e] by (simp add: otherFields_def)
  with Cons show ?case
    by (simp add: Let_def split: prod.splits) (metis snd_conv)
qed

lemma tryActivateLoop_bridges:
  "prefix (bridges e) (bridges (snd (tryActivateLoop x y obs p e)))"
proof (induction obs)
  case Nil
  show ?case by simp
next
  case (Cons ob obs)
  have "prefix (bridges e) (bridges (snd (handleObstacleInteraction q ob e)))" for q
    by (rule handleObstacleInteraction_bridges)
  with Cons show ?case
    by (simp add: Let_def split: prod.splits) (metis snd_conv)
qed

lemma tryActivateLoop_superPower:
  "superPower (fst (tryActivateLoop x y obs p e)) = None \<or> fst (tryActivateLoop x y obs p e) = p"
  by (induction obs) (auto simp: Let_def split: prod.splits)

lemma tryActivateLoop_keeps:
  "powerCounts (snd (tryActivateLoop x y obs p e)) = powerCounts e \<and>
   selectedPower (snd (tryActivateLoop x y obs p e)) = selectedPower e \<and>
   passengers (snd (tryActivateLoop x y obs p e)) = passengers e \<and>
   gameState (snd (tryActivateLoop x y obs p e)) = gameState e"
  using tryActivateLoop_otherFields [where sel = None and x = x and y = y and obs = obs and p = p and e = e]
  by (simp add: otherFields_def)

lemma tryActivatePowerAtPosition_eq:
  "tryActivatePowerAtPosition i x y e =
     (if i < length (passengers e) \<and>
         \<not> (superPower (passengers e ! i) = None \<or> powerCooldown (passengers e ! i) > 0)
      then (snd (tryActivateLoop x y (obstacles e) (passengers e ! i) e))
             \<lparr> passengers := (passengers e)[i := fst (tryActivateLoop x y (obstacles e) (passengers e ! i) e)] \<rparr>
      else e)"
  by (simp add: tryActivatePowerAtPosition_def Let_def tryActivateLoop_keeps split: prod.splits)
     (metis snd_conv tryActivateLoop_keeps)

lemma tryActivatePowerAtPosition_keeps:
  "powerCounts (tryActivatePowerAtPosition i x y e) = powerCounts e \<and>
   selectedPower (tryActivatePowerAtPosition i x y e) = selectedPower e \<and>
   gameState (tryActivatePowerAtPosition i x y e) = gameState e \<and>
   length (passengers (tryActivatePowerAtPosition i x y e)) = length (passengers e)"
  by (simp add: tryActivatePowerAtPosition_eq tryActivateLoop_keeps)

lemma tryActivatePowerAtPosition_bridges:
  "prefix (bridges e) (bridges (tryActivatePowerAtPosition i x y e))"
  by (simp add: tryActivatePowerAtPosition_eq tryActivateLoop_bridges)

lemma tryActivatePowerAtPosition_no_new_power:
  assumes "j < length (passengers e)"
      and "superPower (passengers (tryActivatePowerAtPosition i x y e) ! j) = Some sp"
  shows "superPower (passengers e ! j) = Some sp"
proof (cases "i < length (passengers e) \<and>
         \<not> (superPower (passengers e ! i) = None \<or> powerCooldown (passengers e ! i) > 0)")
  case True
  then have eq: "passengers (tryActivatePowerAtPosition i x y e) =
      (passengers e)[i := fst (tryActivateLoop x y (obstacles e) (passengers e ! i) e)]"
    by (auto simp: tryActivatePowerAtPosition_eq)
  show ?thesis
  proof (cases "j = i")
    case same: True
    from assms(1) assms(2) [unfolded eq] same
    have "superPower (fst (tryActivateLoop x y (obstacles e) (passengers e ! i) e)) = Some sp"
      by simp
    with tryActivateLoop_superPower [of x y "obstacles e" "passengers e ! i" e] same
    show ?thesis by auto
  next
    case False
    with assms(1) assms(2) [unfolded eq] show ?thesis by simp
  qed
next
  case False
  then have "tryActivatePowerAtPosition i x y e = e"
    by (auto simp: tryActivatePowerAtPosition_eq)
  with assms(2) show ?thesis by simp
qed

lemma handleUIClick_keeps:
  "powerCounts (handleUIClick x y uiY e) = powerCounts e \<and>
   passengers (handleUIClick x y uiY e) = passengers e \<and>
   bridges (handleUIClick x y uiY e) = bridges e \<and>
   gameState (handleUIClick x y uiY e) = gameState e"
  by (simp add: handleUIClick_def Let_def)

lemma handleUIClick_refuses:
  "getCount e sp \<le> 0 \<Longrightarrow> selectedPower (handleUIClick x y uiY e) = Some sp \<Longrightarrow>
     selectedPower e = Some sp"
  by (cases sp) (simp_all add: handleUIClick_def Let_def split: if_splits)

lemma assignTarget_Some:
  "assignTarget x y e = Some (sp, j) \<Longrightarrow>
     selectedPower e = Some sp \<and> getCount e sp > 0 \<and> j < length (passengers e)"
proof -
  have idx: "findIndex P xs = Some k \<Longrightarrow> k < length xs" for P and xs :: "Passenger list" and k
    by (induction xs arbitrary: k) (auto split: if_splits)
  show "assignTarget x y e = Some (sp, j) \<Longrightarrow> ?thesis"
    by (auto simp: assignTarget_def split: option.splits if_splits dest: idx)
qed

lemma handleClick_playing:
  "gameState e = PLAYING \<Longrightarrow>
     handleClick x y now config e =
       (if y \<ge> canvasHeight e - uiHeight then handleUIClick x y (canvasHeight e - uiHeight) e
        else
          (case findIndex (clickedPassenger x y) (passengers e) of
             Some i \<Rightarrow> tryActivatePowerAtPosition i x y (e\<lparr> selectedPassenger := Some i \<rparr>)
           | None \<Rightarrow>
              (case assignTarget x y e of
                 Some (sp, j) \<Rightarrow>
                   e\<lparr> passengers :=
                        (passengers e)[j := (passengers e ! j)
                           \<lparr> superPower := Some sp, color := getColorForPower (Some sp) \<rparr>],
                      powerCounts := (powerCounts e)(sp \<mapsto> max 0 (getCount e sp - 1)),
                      selectedPower := None \<rparr>
               | None \<Rightarrow>
                  (case selectedPassenger e of
                     Some i \<Rightarrow> tryActivatePowerAtPosition i x y e
                   | None \<Rightarrow> e\<lparr> selectedPassenger := None \<rparr>))))"
  by (simp add: handleClick_def Let_def)

lemma handleClick_playing_bridges:
  assumes "gameState e = PLAYING"
  shows "prefix (bridges e) (bridges (handleClick x y now config e))"
proof -
  have a: "prefix (bridges e) (bridges (tryActivatePowerAtPosition i x y (e\<lparr> selectedPassenger := s \<rparr>)))"
    for i s
    using tryActivatePowerAtPosition_bridges [of "e\<lparr> selectedPassenger := s \<rparr>" i x y] by simp
  show ?thesis
    unfolding handleClick_playing [OF assms]
    by (simp add: handleUIClick_keeps a tryActivatePowerAtPosition_bridges
          split: option.splits prod.splits)
qed

lemma handleClick_length:
  assumes "gameState e = PLAYING"
  shows "length (passengers (handleClick x y now config e)) = length (passengers e)"
proof -
  have a: "length (passengers (tryActivatePowerAtPosition i x y (e\<lparr> selectedPassenger := s \<rparr>)))
             = length (passengers e)" for i s
    using tryActivatePowerAtPosition_keeps [of i x y "e\<lparr> selectedPassenger := s \<rparr>"] by simp
  show ?thesis
    unfolding handleClick_playing [OF assms]
    by (simp add: a tryActivatePowerAtPosition_keeps handleUIClick_keeps
          split: option.splits prod.splits)
qed

section \<open>The inventory\<close>

lemma startLevel_counts:
  "getCount (startLevel level now config e) Bridge = 10 \<and>
   getCount (startLevel level now config e) DoorBreaker = 8 \<and>
   getCount (startLevel level now config e) SecurityBriber = 6"
  by (simp add: getCount_def startLevel_def loadLevel_def buildPlatformsAndWalls_def
          initializePowerCounts_def Let_def)

lemma lifecycle_nonNegative:
  "countsNonNegative (newGameEngine w h) \<and> countsNonNegative (startLevel level now config e)"
  by (simp add: countsNonNegative_def startLevel_counts)
     (simp add: newGameEngine_def initializePowerCounts_def getCount_def)

lemma handleClick_nonNegative:
  assumes "countsNonNegative e"
  shows "countsNonNegative (handleClick x y now config e)"
proof (cases "gameState e = PLAYING")
  case True
  have a: "countsNonNegative (tryActivatePowerAtPosition i x y (e\<lparr> selectedPassenger := s \<rparr>))" for i s
    using assms tryActivatePowerAtPosition_keeps [of i x y "e\<lparr> selectedPassenger := s \<rparr>"]
    by (simp add: countsNonNegative_def getCount_def)
  have b: "countsNonNegative (tryActivatePowerAtPosition i x y e)" for i
    using assms tryActivatePowerAtPosition_keeps [of i x y e]
    by (simp add: countsNonNegative_def getCount_def)
  have c: "countsNonNegative (handleUIClick x y u e)" for u
    using assms handleUIClick_keeps [of x y u e]
    by (simp add: countsNonNegative_def getCount_def)
  have d: "countsNonNegative (e\<lparr> passengers := ps,
             powerCounts := (powerCounts e)(sp \<mapsto> max 0 (getCount e sp - 1)),
             selectedPower := None \<rparr>)" for ps sp
    using assms by (cases sp) (simp_all add: countsNonNegative_def getCount_def)
  have e: "countsNonNegative (e\<lparr> selectedPassenger := None \<rparr>)"
    using assms by (simp add: countsNonNegative_def getCount_def)
  show ?thesis
    unfolding handleClick_playing [OF True]
    by (simp add: a b c d e split: option.splits prod.splits)
next
  case False
  have "countsNonNegative (startLevel l now config e)" for l
    by (simp add: countsNonNegative_def startLevel_counts)
  moreover have "countsNonNegative (e\<lparr> gameState := MENU \<rparr>)"
    using assms by (simp add: countsNonNegative_def getCount_def)
  ultimately show ?thesis
    using False assms by (simp add: handleClick_def nextLevel_def)
qed

lemma update_nonNegative: "countsNonNegative e \<Longrightarrow> countsNonNegative (update dt now rand e)"
  by (simp add: countsNonNegative_def getCount_def update_powerCounts)

lemma handleClick_selectedPower:
  assumes "gameState e = PLAYING" and "getCount e sp = 0"
      and "selectedPower (handleClick x y now config e) = Some sp"
  shows "selectedPower e = Some sp"
proof -
  have a: "selectedPower (tryActivatePowerAtPosition i x y (e\<lparr> selectedPassenger := s \<rparr>))
             = selectedPower e" for i s
    using tryActivatePowerAtPosition_keeps [of i x y "e\<lparr> selectedPassenger := s \<rparr>"] by simp
  have b: "selectedPower (handleUIClick x y u e) = Some sp \<Longrightarrow> selectedPower e = Some sp" for u
    using handleUIClick_refuses [of e sp x y u] assms(2) by simp
  from assms(3) show ?thesis
    unfolding handleClick_playing [OF assms(1)]
    by (auto simp: a tryActivatePowerAtPosition_keeps split: option.splits prod.splits if_splits
          dest: b)
qed

lemma handleClick_no_new_power:
  assumes playing: "gameState e = PLAYING" and zero: "getCount e sp = 0"
      and j: "j < length (passengers e)"
      and new: "superPower (passengers (handleClick x y now config e) ! j) = Some sp"
  shows "superPower (passengers e ! j) = Some sp"
proof -
  have a: "superPower (passengers e ! j) = Some sp"
    if "superPower (passengers (tryActivatePowerAtPosition i x y (e\<lparr> selectedPassenger := s \<rparr>)) ! j) = Some sp"
    for i s
    using tryActivatePowerAtPosition_no_new_power [of j "e\<lparr> selectedPassenger := s \<rparr>" i x y sp] j that
    by simp
  have b: "superPower (passengers e ! j) = Some sp"
    if "superPower (passengers (tryActivatePowerAtPosition i x y e) ! j) = Some sp" for i
    using tryActivatePowerAtPosition_no_new_power [of j e i x y sp] j that by simp
  have c: "superPower (passengers e ! j) = Some sp"
    if "assignTarget x y e = Some (sp', k)"
       "superPower ((passengers e)[k := (passengers e ! k)
            \<lparr> superPower := Some sp', color := getColorForPower (Some sp') \<rparr>] ! j) = Some sp"
    for sp' k
  proof -
    from assignTarget_Some [OF that(1)] zero have "sp' \<noteq> sp" by auto
    with that(2) j show ?thesis by (cases "j = k") auto
  qed
  from new show ?thesis
    unfolding handleClick_playing [OF playing]
    by (auto simp: handleUIClick_keeps split: option.splits prod.splits if_splits
          dest: a b c)
qed

lemma handleClick_count_stays_zero:
  assumes "gameState e = PLAYING" and "getCount e sp = 0"
  shows "getCount (handleClick x y now config e) sp = 0"
proof -
  have a: "getCount (tryActivatePowerAtPosition i x y (e\<lparr> selectedPassenger := s \<rparr>)) sp = 0" for i s
    using tryActivatePowerAtPosition_keeps [of i x y "e\<lparr> selectedPassenger := s \<rparr>"] assms(2)
    by (simp add: getCount_def)
  have b: "getCount (tryActivatePowerAtPosition i x y e) sp = 0" for i
    using tryActivatePowerAtPosition_keeps [of i x y e] assms(2) by (simp add: getCount_def)
  have c: "getCount (handleUIClick x y u e) sp = 0" for u
    using handleUIClick_keeps [of x y u e] assms(2) by (simp add: getCount_def)
  have d: "getCount (e\<lparr> passengers := ps,
             powerCounts := (powerCounts e)(sp' \<mapsto> max 0 (getCount e sp' - 1)),
             selectedPower := None \<rparr>) sp = 0"
    if "assignTarget x y e = Some (sp', k)" for ps sp' k
  proof -
    from assignTarget_Some [OF that] assms(2) have "sp' \<noteq> sp" by auto
    with assms(2) show ?thesis by (simp add: getCount_def)
  qed
  have e: "getCount (e\<lparr> selectedPassenger := None \<rparr>) sp = 0"
    using assms(2) by (simp add: getCount_def)
  show ?thesis
    unfolding handleClick_playing [OF assms(1)]
    by (simp add: a b c d e split: option.splits prod.splits)
qed

lemma handleClick_selected_empty:
  assumes "gameState e = PLAYING" and "getCount e sp = 0" and "selectedPower e = Some sp"
  shows "powerCounts (handleClick x y now config e) = powerCounts e"
proof -
  have none: "assignTarget x y e = None"
    using assms(2,3) by (simp add: assignTarget_def)
  have a: "powerCounts (tryActivatePowerAtPosition i x y (e\<lparr> selectedPassenger := s \<rparr>))
             = powerCounts e" for i s
    using tryActivatePowerAtPosition_keeps [of i x y "e\<lparr> selectedPassenger := s \<rparr>"] by simp
  show ?thesis
    unfolding handleClick_playing [OF assms(1)]
    by (simp add: none a tryActivatePowerAtPosition_keeps handleUIClick_keeps split: option.splits)
qed

lemma handleClick_selected_empty_no_assign:
  assumes playing: "gameState e = PLAYING" and zero: "getCount e sp = 0"
      and selected: "selectedPower e = Some sp"
      and j: "j < length (passengers e)"
      and new: "superPower (passengers (handleClick x y now config e) ! j) = Some q"
  shows "superPower (passengers e ! j) = Some q"
proof -
  have none: "assignTarget x y e = None"
    using zero selected by (simp add: assignTarget_def)
  have a: "superPower (passengers e ! j) = Some q"
    if "superPower (passengers (tryActivatePowerAtPosition i x y (e\<lparr> selectedPassenger := s \<rparr>)) ! j) = Some q"
    for i s
    using tryActivatePowerAtPosition_no_new_power [of j "e\<lparr> selectedPassenger := s \<rparr>" i x y q] j that
    by simp
  have b: "superPower (passengers e ! j) = Some q"
    if "superPower (passengers (tryActivatePowerAtPosition i x y e) ! j) = Some q" for i
    using tryActivatePowerAtPosition_no_new_power [of j e i x y q] j that by simp
  from new show ?thesis
    unfolding handleClick_playing [OF playing]
    by (auto simp: none handleUIClick_keeps split: option.splits if_splits dest: a b)
qed

section \<open>The concrete states\<close>

lemma sqrt_less_bound: "0 \<le> c \<Longrightarrow> sqrt a < c \<longleftrightarrow> a < c\<^sup>2"
  using real_sqrt_less_iff [of a "c\<^sup>2"] by simp

lemma sqrt_le_bound: "0 \<le> c \<Longrightarrow> sqrt a \<le> c \<longleftrightarrow> a \<le> c\<^sup>2"
  using real_sqrt_le_iff [of a "c\<^sup>2"] by simp

lemma demoEngine_eq:
  "demoEngine =
     \<lparr> canvasWidth = 1200, canvasHeight = 700, gameState = PLAYING, passengers = [], bridges = [],
       currentLevel = 1, levelConfig = Some demoConfig, levelStartTime = 0, passengersSpawned = 0,
       spawnTimer = 0, groundLevel = 560,
       checkInGate = \<lparr> vec_x = 1050, vec_y = 530 \<rparr>,
       obstacles =
         [\<lparr> ob_type = Wall, ob_x = 0, ob_y = 50, ob_width = 150, ob_height = 20,
            ob_id = ''spawn_platform'' \<rparr>, tallWall, gateGap,
          \<lparr> ob_type = Door, ob_x = 600, ob_y = 200, ob_width = 20, ob_height = 60,
            ob_id = ''special_0'' \<rparr>],
       platforms =
         [\<lparr> box_x = 0, box_y = 50, box_width = 150, box_height = 20 \<rparr>,
          \<lparr> box_x = 0, box_y = 560, box_width = 1200, box_height = 20 \<rparr>],
       walls =
         [\<lparr> box_x = 320, box_y = 100, box_width = 20, box_height = 120 \<rparr>,
          \<lparr> box_x = 600, box_y = 200, box_width = 20, box_height = 60 \<rparr>],
       selectedPassenger = None, selectedPower = None,
       powerCounts = [Bridge \<mapsto> 10, DoorBreaker \<mapsto> 8, SecurityBriber \<mapsto> 6] \<rparr>"
  by (simp add: demoEngine_def handleClick_def newGameEngine_def startLevel_def loadLevel_def
        buildPlatformsAndWalls_def initializePowerCounts_def demoConfig_def uiHeight_def
        obstacleBounds_def tallWall_def gateGap_def Let_def)

section \<open>The claims\<close>

subsection \<open>C1: contact with a wall\<close>



text \<open>
  The older revision \<^verbatim>\<open>src/GameEngine.ts\<close>, with its three powers, has no wall
  breaking: there the handling of a wall-typed obstacle reverses the agent and changes
  nothing else.
\<close>

lemma older_revision_wall_reverses:
  "ob_type ob = Wall \<Longrightarrow> handleObstacleInteraction p ob e = (reverseDirection p, e)"
  by (simp add: handleObstacleInteraction_def)

subsection \<open>C2: the clock of the time limit\<close>

text \<open>
  Claim C2, as amended. The claim says that the clock of the 300 second limit is frozen
  while the game is paused. In the code \<^verbatim>\<open>pause()\<close> only toggles the game state: it
  leaves the start time of the level as it is, an update call made while paused changes
  nothing, and an update call made while playing takes the timeout transition to
  GameOver exactly when the clock time since the start of the level, the paused time
  included, is at least 300 seconds.
\<close>

theorem timeout_on_wall_clock:
  "levelStartTime (pauseCalls ts e) = levelStartTime e \<and>
   (gameState e = PAUSED \<longrightarrow> update dt now rand e = e) \<and>
   (gameState e = PLAYING \<longrightarrow>
      update dt now rand e =
        (if now - levelStartTime e \<ge> 300 then e\<lparr> gameState := GAME_OVER \<rparr> else tick dt rand e))"
  by (simp add: pauseCalls_levelStartTime update_def levelTimeLimit_def Let_def)

text \<open>
  The witness: the small level, paused at clock value 10 and resumed at 310.
\<close>

theorem timeout_on_wall_clock_witness:
  "gameState (pauseCalls [10] demoEngine) = PAUSED \<and>
   update (1 / 60) 200 (1 / 2) (pauseCalls [10] demoEngine) = pauseCalls [10] demoEngine \<and>
   gameState (pauseCalls [10, 310] demoEngine) = PLAYING \<and>
   levelStartTime (pauseCalls [10, 310] demoEngine) = 0 \<and>
   gameState (update (1 / 60) 310 (1 / 2) (pauseCalls [10, 310] demoEngine)) = GAME_OVER"
  using timeout_on_wall_clock [of "[10]" demoEngine "1 / 60" 200 "1 / 2"]
        timeout_on_wall_clock [of "[10, 310]" demoEngine "1 / 60" 310 "1 / 2"]
        timeout_on_wall_clock [of "[]" "pauseCalls [10] demoEngine" "1 / 60" 200 "1 / 2"]
        timeout_on_wall_clock [of "[]" "pauseCalls [10, 310] demoEngine" "1 / 60" 310 "1 / 2"]
  by (simp add: demoEngine_eq pause_def)

text \<open>
  The counterexample to C2 as stated: the level starts at clock value 0, is paused at 10
  and resumed at 310. The pause-adjusted elapsed time at 310 is 10 seconds, below the
  limit, and no passenger was spawned, yet the update call at 310 ends the game.
\<close>

theorem pause_clock_counterexample:
  "gameState demoEngine = PLAYING \<and> levelStartTime demoEngine = 0 \<and>
   gameState (pauseCalls [10] demoEngine) = PAUSED \<and>
   gameState (pauseCalls [10, 310] demoEngine) = PLAYING \<and>
   pauseAdjustedElapsed 0 [10, 310] 310 = 10 \<and> \<not> 10 \<ge> levelTimeLimit \<and>
   passengersSpawned (pauseCalls [10, 310] demoEngine) = 0 \<and>
   update (1 / 60) 310 (1 / 2) (pauseCalls [10, 310] demoEngine) =
     (pauseCalls [10, 310] demoEngine)\<lparr> gameState := GAME_OVER \<rparr>"
  by (simp add: demoEngine_eq pause_def pauseAdjustedElapsed_def levelTimeLimit_def update_def
        Let_def)

subsection \<open>C3: the cooldown of the ability\<close>

text \<open>
  Claim C3, as amended. The claim says that after every tick the cooldown is
  \<open>max 0 (cooldown - dt)\<close>. The code subtracts \<open>dt\<close> whenever the cooldown is positive and
  has no floor: for an agent that the tick updates (active, not at the gate) with a
  positive cooldown the new cooldown is \<open>cooldown - dt\<close>, which is negative when \<open>dt\<close>
  exceeds the cooldown; in every other case the cooldown is unchanged. For an updated
  agent and \<open>0 \<le> dt \<le> cooldown\<close> this is \<open>max 0 (cooldown - dt)\<close>.
\<close>

theorem cooldown_after_tick:
  "powerCooldown (Passenger_update dt pls ws tx ty p) =
     (if isActive p \<and> \<not> hasReachedGate p \<and> powerCooldown p > 0
      then powerCooldown p - dt else powerCooldown p) \<and>
   (isActive p \<and> \<not> hasReachedGate p \<and> 0 \<le> dt \<and> dt \<le> powerCooldown p \<longrightarrow>
      powerCooldown (Passenger_update dt pls ws tx ty p) = max 0 (powerCooldown p - dt))"
  by (auto simp: Passenger_update_powerCooldown)

text \<open>The witness: a quarter of a second off a cooldown of half a second.\<close>

theorem cooldown_after_tick_witness:
  "isActive coolingPassenger \<and> \<not> hasReachedGate coolingPassenger \<and>
   (0::real) \<le> 1 / 4 \<and> 1 / 4 \<le> powerCooldown coolingPassenger \<and>
   powerCooldown (Passenger_update (1 / 4) [] [] None None coolingPassenger) = 1 / 4"
  using cooldown_after_tick [of "1 / 4" "[]" "[]" None None coolingPassenger]
  by (simp add: coolingPassenger_def newPassenger_def)

text \<open>
  The counterexample to C3 as stated: an active agent with a cooldown of half a second
  and a tick of one second. The cooldown after the tick is minus one half, not 0.
\<close>

theorem cooldown_floor_counterexample:
  "isActive coolingPassenger \<and> \<not> hasReachedGate coolingPassenger \<and>
   powerCooldown coolingPassenger = 1 / 2 \<and>
   powerCooldown (Passenger_update 1 [] [] None None coolingPassenger) = - (1 / 2) \<and>
   max 0 (powerCooldown coolingPassenger - 1) = 0"
  by (simp add: coolingPassenger_def newPassenger_def Passenger_update_def steer_def
        moveHorizontal_def moveVertical_def cooldownStep_def Let_def)

subsection \<open>C4: reaching the gate once\<close>

text \<open>
  Claim C4. Across any sequence of calls made on an agent, \<^verbatim>\<open>checkReachedGate\<close>
  returns true at most once; a call that returns true leaves \<^verbatim>\<open>hasReachedGate\<close> true
  and \<^verbatim>\<open>isActive\<close> false; and once \<^verbatim>\<open>hasReachedGate\<close> is true it stays true and
  every later call of \<^verbatim>\<open>checkReachedGate\<close> returns false, wherever the agent is.
\<close>

theorem checkReachedGate_once:
  "length (filter (\<lambda>b. b) (gateReturns cs p)) \<le> 1 \<and>
   (snd (checkReachedGate g w p) \<longrightarrow>
      hasReachedGate (fst (checkReachedGate g w p)) \<and> \<not> isActive (fst (checkReachedGate g w p))) \<and>
   (hasReachedGate p \<longrightarrow>
      hasReachedGate (doCalls cs p) \<and> (\<forall>b \<in> set (gateReturns cs p). \<not> b))"
  using gateReturns_at_most_one checkReachedGate_true reached_stays reached_returns_false
  by blast

text \<open>
  The witness: an agent inside the gate, checked, turned around and checked again.
\<close>

theorem checkReachedGate_once_witness:
  "snd (checkReachedGate gateDemo 100 arrivingPassenger) \<and>
   hasReachedGate (fst (checkReachedGate gateDemo 100 arrivingPassenger)) \<and>
   \<not> isActive (fst (checkReachedGate gateDemo 100 arrivingPassenger)) \<and>
   gateReturns [CallCheckReachedGate gateDemo 100, CallReverseDirection,
                CallCheckReachedGate gateDemo 100] arrivingPassenger = [True, False] \<and>
   hasReachedGate (doCalls [CallReverseDirection, CallCheckReachedGate gateDemo 100]
                     (fst (checkReachedGate gateDemo 100 arrivingPassenger)))"
  using checkReachedGate_once [of "[CallCheckReachedGate gateDemo 100, CallReverseDirection,
                CallCheckReachedGate gateDemo 100]" arrivingPassenger gateDemo 100]
        checkReachedGate_once [of "[CallReverseDirection, CallCheckReachedGate gateDemo 100]"
                "fst (checkReachedGate gateDemo 100 arrivingPassenger)" gateDemo 100]
  by (simp add: checkReachedGate_def arrivingPassenger_def gateDemo_def newPassenger_def
        getBounds_def reverseDirection_def Let_def)

subsection \<open>C5: activating the ability\<close>

text \<open>
  Claim C5. \<^verbatim>\<open>activateSuperPower\<close> returns true, sets \<^verbatim>\<open>isUsingPower\<close> and sets the
  cooldown to 2 seconds exactly when the agent holds an ability, its cooldown is at most
  0 and it is not already using its power; in every other case it returns false and the
  agent is unchanged.
\<close>

theorem activateSuperPower_contract:
  "activateSuperPower p =
     (if superPower p \<noteq> None \<and> powerCooldown p \<le> 0 \<and> \<not> isUsingPower p
      then (p\<lparr> isUsingPower := True, powerCooldown := 2 \<rparr>, True)
      else (p, False))"
  by (auto simp: activateSuperPower_def)

text \<open>
  The witness: a door breaker that is ready activates its power; one whose power is
  cooling down does not and stays as it is.
\<close>

theorem activateSuperPower_contract_witness:
  "activateSuperPower breakerPassenger =
     (breakerPassenger\<lparr> isUsingPower := True, powerCooldown := 2 \<rparr>, True) \<and>
   activateSuperPower coolingPassenger = (coolingPassenger, False)"
  using activateSuperPower_contract [of breakerPassenger]
        activateSuperPower_contract [of coolingPassenger]
  by (simp add: breakerPassenger_def coolingPassenger_def newPassenger_def)

subsection \<open>C6: the end of a level\<close>

text \<open>
  Claim C6, as amended. The claim says that the game goes from Playing to GameOver if and
  only if all agents are resolved and fewer than 50 reached the gate. The timeout is a
  second way to GameOver. After an update call made while Playing, with at most 100
  agents spawned before it, the game is in GameOver if and only if the call timed out
  (at least 300 seconds since the start of the level) or all agents are resolved (the
  spawned count equals 100 and no agent is active and unresolved) and fewer than 50
  reached the gate; it is in LevelComplete if and only if the call did not time out, all
  agents are resolved, at least 50 reached the gate and the level is below 10; and in
  Victory if and only if the call did not time out, all agents are resolved, at least 50
  reached the gate and the level is 10 or more. The counts are those after the call.
\<close>

theorem win_lose_outcome:
  assumes "gameState e = PLAYING" and "passengersSpawned e \<le> totalPassengers"
  shows "(gameState (update dt now rand e) = GAME_OVER \<longleftrightarrow>
            now - levelStartTime e \<ge> levelTimeLimit \<or>
            allResolved (update dt now rand e) \<and> reachedCount (update dt now rand e) < 50) \<and>
         (gameState (update dt now rand e) = LEVEL_COMPLETE \<longleftrightarrow>
            now - levelStartTime e < levelTimeLimit \<and>
            allResolved (update dt now rand e) \<and> reachedCount (update dt now rand e) \<ge> 50 \<and>
            currentLevel (update dt now rand e) < 10) \<and>
         (gameState (update dt now rand e) = VICTORY \<longleftrightarrow>
            now - levelStartTime e < levelTimeLimit \<and>
            allResolved (update dt now rand e) \<and> reachedCount (update dt now rand e) \<ge> 50 \<and>
            currentLevel (update dt now rand e) \<ge> 10)"
proof (cases "now - levelStartTime e \<ge> levelTimeLimit")
  case True
  then have "update dt now rand e = e\<lparr> gameState := GAME_OVER \<rparr>"
    using assms(1) by (simp add: update_def Let_def)
  with True show ?thesis by simp
next
  case False
  then have "update dt now rand e = tick dt rand e"
    using assms(1) by (simp add: update_def Let_def)
  with False show ?thesis
    using tick_outcome [OF assms, of dt rand] by simp
qed

text \<open>
  The witness: the small level, with no agent spawned yet, one second and 300 seconds
  after its start.
\<close>

theorem win_lose_outcome_witness:
  "gameState demoEngine = PLAYING \<and> passengersSpawned demoEngine \<le> totalPassengers \<and>
   gameState (update (1 / 60) 1 (1 / 2) demoEngine) = PLAYING \<and>
   gameState (update (1 / 60) 300 (1 / 2) demoEngine) = GAME_OVER"
proof -
  have h: "gameState demoEngine = PLAYING" "passengersSpawned demoEngine \<le> totalPassengers"
    by (simp_all add: demoEngine_eq)
  have t: "levelStartTime demoEngine = 0"
    by (simp add: demoEngine_eq)
  have "update (1 / 60) 1 (1 / 2) demoEngine = tick (1 / 60) (1 / 2) demoEngine"
    using h(1) by (simp add: update_def t levelTimeLimit_def)
  moreover have "passengersSpawned (tick (1 / 60) (1 / 2) demoEngine) = 0"
    by (simp add: demoEngine_eq tick_eq spawnPhase_def totalPassengers_def spawnInterval_def
          checkWinCondition_keeps loop_engine_keeps buildPlatformsAndWalls_keeps)
  ultimately have "\<not> allResolved (update (1 / 60) 1 (1 / 2) demoEngine)"
    by (simp add: allResolved_def totalPassengers_def)
  moreover have "gameState (update (1 / 60) 1 (1 / 2) demoEngine) \<in> {PLAYING, GAME_OVER, LEVEL_COMPLETE, VICTORY}"
    using h(1) by (simp add: update_def tick_eq checkWinCondition_def Let_def loop_engine_keeps
          buildPlatformsAndWalls_keeps spawnPhase_keeps)
  ultimately show ?thesis
    using h win_lose_outcome [OF h, of "1 / 60" 1 "1 / 2"]
          win_lose_outcome [OF h, of "1 / 60" 300 "1 / 2"]
    by (simp add: t levelTimeLimit_def)
qed

text \<open>
  The counterexample to C6 as stated: the small level 300 seconds after its start, with
  no agent spawned. The update call takes the game from Playing to GameOver although not
  all agents are resolved.
\<close>

theorem game_over_iff_counterexample:
  "gameState demoEngine = PLAYING \<and>
   gameState (update (1 / 60) 300 (1 / 2) demoEngine) = GAME_OVER \<and>
   passengersSpawned (update (1 / 60) 300 (1 / 2) demoEngine) = 0 \<and>
   \<not> allResolved (update (1 / 60) 300 (1 / 2) demoEngine)"
  by (simp add: demoEngine_eq update_def levelTimeLimit_def Let_def allResolved_def
        totalPassengers_def)

subsection \<open>C7: bridges are only added\<close>

text \<open>
  Claim C7. While the game is Playing, an engine tick and the handling of a click keep
  every bridge: the list of bridges before the step is a prefix of the list after it.
\<close>

theorem bridges_only_appended:
  "gameState e = PLAYING \<Longrightarrow>
     prefix (bridges e) (bridges (update dt now rand e)) \<and>
     prefix (bridges e) (bridges (handleClick x y t config e))"
  by (simp add: update_bridges handleClick_playing_bridges)

text \<open>
  The witness: a level with one bridge and a bridge builder at the gap before the gate.
  The tick appends the new bridge after the old one; a click elsewhere keeps the list.
\<close>

theorem bridges_only_appended_witness:
  "gameState builderEngine = PLAYING \<and>
   bridges builderEngine = [\<lparr> br_x = 200, br_y = 540, br_width = 60 \<rparr>] \<and>
   bridges (update (1 / 60) 1 (1 / 2) builderEngine) =
     [\<lparr> br_x = 200, br_y = 540, br_width = 60 \<rparr>, \<lparr> br_x = 1040, br_y = 540, br_width = 80 \<rparr>] \<and>
   bridges (handleClick 600 300 1 demoConfig builderEngine) =
     [\<lparr> br_x = 200, br_y = 540, br_width = 60 \<rparr>]"
  using bridges_only_appended [of builderEngine "1 / 60" 1 "1 / 2" 600 300 1 demoConfig]
  by (simp add: builderEngine_def demoEngine_eq newPassenger_def
        update_def levelTimeLimit_def tick_def spawnPhase_def totalPassengers_def
        spawnInterval_def buildPlatformsAndWalls_def obstacleBounds_def tallWall_def gateGap_def
        stepPassenger_def Passenger_update_def steer_def moveHorizontal_def moveVertical_def
        cooldownStep_def handleObstacleCollisions_def collisionStep_def getBounds_def
        checkAABB_def handleObstacleInteraction_def hasBridge_def reverseDirection_def
        removeObstacle_def checkReachedGate_def gateWidth_def
        activateSuperPower_def checkWinCondition_def Let_def
        handleClick_def uiHeight_def clickedPassenger_def sqrt_le_bound assignTarget_def)

subsection \<open>C8: an agent that reached the gate\<close>

text \<open>
  Claim C8 says that a tick leaves an agent with \<^verbatim>\<open>hasReachedGate\<close> unchanged. The
  physics step does return at once for such an agent, but \<^verbatim>\<open>update\<close> of the engine calls
  \<^verbatim>\<open>handleObstacleCollisions\<close> for every passenger of the list, the inactive ones
  included. Here a passenger falls into the gate over the gap in front of it: the first
  tick marks it as having reached the gate, and the second tick reverses the direction
  of the passenger that has reached the gate.
\<close>

theorem reached_passenger_still_collides:
  "gameState fallingEngine = PLAYING \<and>
   passengers (update (1 / 60) 1 (1 / 2) fallingEngine) = [arrivedPassenger] \<and>
   hasReachedGate arrivedPassenger \<and> \<not> isActive arrivedPassenger \<and>
   direction arrivedPassenger = - 1 \<and>
   gameState (update (1 / 60) 1 (1 / 2) fallingEngine) = PLAYING \<and>
   passengers (update (1 / 60) (61 / 60) (1 / 2) (update (1 / 60) 1 (1 / 2) fallingEngine))
     = [arrivedPassenger\<lparr> direction := 1 \<rparr>]"
  by (simp add: fallingEngine_def demoEngine_eq fallingPassenger_def arrivedPassenger_def
        newPassenger_def checkReachedGate_def getBounds_def gateWidth_def
        update_def levelTimeLimit_def tick_def spawnPhase_def totalPassengers_def
        spawnInterval_def buildPlatformsAndWalls_def obstacleBounds_def tallWall_def gateGap_def
        stepPassenger_def Passenger_update_def steer_def moveHorizontal_def moveVertical_def
        cooldownStep_def handleObstacleCollisions_def collisionStep_def
        checkAABB_def handleObstacleInteraction_def hasBridge_def reverseDirection_def
        activateSuperPower_def checkWinCondition_def Let_def)

subsection \<open>C9: an empty inventory\<close>

text \<open>
  Claim C9. While the game is Playing and the inventory count of an ability is 0, no
  click selects that ability (a click leaves it selected only if it was selected
  before), no click gives that ability to a passenger, and its count stays 0; if that
  ability is the selected one, a click changes no count and gives no passenger any
  ability. No count becomes negative: the counts are non-negative in a new engine and
  after the start of a level, and a click and a tick keep them non-negative.
\<close>

theorem empty_inventory_not_assigned:
  assumes "gameState e = PLAYING" and "getCount e sp = 0"
  shows "(selectedPower (handleClick x y t config e) = Some sp \<longrightarrow> selectedPower e = Some sp) \<and>
         length (passengers (handleClick x y t config e)) = length (passengers e) \<and>
         (\<forall>j < length (passengers e).
            superPower (passengers (handleClick x y t config e) ! j) = Some sp \<longrightarrow>
            superPower (passengers e ! j) = Some sp) \<and>
         getCount (handleClick x y t config e) sp = 0 \<and>
         (selectedPower e = Some sp \<longrightarrow>
            powerCounts (handleClick x y t config e) = powerCounts e \<and>
            (\<forall>j < length (passengers e). \<forall>q.
               superPower (passengers (handleClick x y t config e) ! j) = Some q \<longrightarrow>
               superPower (passengers e ! j) = Some q)) \<and>
         countsNonNegative (newGameEngine w h) \<and>
         countsNonNegative (startLevel level t config e) \<and>
         (countsNonNegative e \<longrightarrow>
            countsNonNegative (handleClick x y t config e) \<and>
            countsNonNegative (update dt now rand e))"
proof (intro conjI impI allI)
  show "selectedPower e = Some sp" if "selectedPower (handleClick x y t config e) = Some sp"
    using assms that by (rule handleClick_selectedPower)
  show "length (passengers (handleClick x y t config e)) = length (passengers e)"
    using assms(1) by (rule handleClick_length)
  show "superPower (passengers e ! j) = Some sp"
    if "j < length (passengers e)"
       "superPower (passengers (handleClick x y t config e) ! j) = Some sp" for j
    using assms that by (rule handleClick_no_new_power)
  show "getCount (handleClick x y t config e) sp = 0"
    using assms by (rule handleClick_count_stays_zero)
  show "powerCounts (handleClick x y t config e) = powerCounts e" if "selectedPower e = Some sp"
    using assms that by (rule handleClick_selected_empty)
  show "superPower (passengers e ! j) = Some q"
    if "selectedPower e = Some sp" "j < length (passengers e)"
       "superPower (passengers (handleClick x y t config e) ! j) = Some q" for j q
    using assms that by (rule handleClick_selected_empty_no_assign)
  show "countsNonNegative (newGameEngine w h)"
    by (simp add: lifecycle_nonNegative)
  show "countsNonNegative (startLevel level t config e)"
    by (simp add: lifecycle_nonNegative)
  show "countsNonNegative (handleClick x y t config e)" if "countsNonNegative e"
    using that by (rule handleClick_nonNegative)
  show "countsNonNegative (update dt now rand e)" if "countsNonNegative e"
    using that by (rule update_nonNegative)
qed

text \<open>
  The witness: the bridge count is 0. With the bridge ability selected, a click next to
  the passenger without a power leaves the passenger without one and the counts as they
  were; with nothing selected, a click on the bridge icon selects nothing.
\<close>

theorem empty_inventory_not_assigned_witness:
  "gameState (emptyBridgeEngine (Some Bridge)) = PLAYING \<and>
   getCount (emptyBridgeEngine (Some Bridge)) Bridge = 0 \<and>
   countsNonNegative (emptyBridgeEngine (Some Bridge)) \<and>
   nearestCandidate 60 30 (passengers (emptyBridgeEngine (Some Bridge)) ! 0) \<and>
   superPower (passengers (handleClick 60 30 5 demoConfig (emptyBridgeEngine (Some Bridge))) ! 0) = None \<and>
   powerCounts (handleClick 60 30 5 demoConfig (emptyBridgeEngine (Some Bridge)))
     = powerCounts (emptyBridgeEngine (Some Bridge)) \<and>
   countsNonNegative (handleClick 60 30 5 demoConfig (emptyBridgeEngine (Some Bridge))) \<and>
   selectedPower (handleClick 20 630 5 demoConfig (emptyBridgeEngine None)) = None"
  using empty_inventory_not_assigned
          [of "emptyBridgeEngine (Some Bridge)" Bridge 60 30 5 demoConfig 1200 700 1 "1 / 60" 5 "1 / 2"]
        empty_inventory_not_assigned
          [of "emptyBridgeEngine None" Bridge 20 630 5 demoConfig 1200 700 1 "1 / 60" 5 "1 / 2"]
  by (simp add: emptyBridgeEngine_def demoEngine_eq getCount_def countsNonNegative_def
        nearestCandidate_def newPassenger_def sqrt_less_bound handleClick_def uiHeight_def
        clickedPassenger_def assignTarget_def handleUIClick_def Let_def)

subsection \<open>C10: the inventory at the start of a level\<close>

text \<open>
  Claim C10. After \<^verbatim>\<open>startLevel\<close>, whatever the level and whatever the engine was
  before, the inventory is 10 bridge uses, 8 door breaker uses and 6 security briber
  uses.
\<close>

theorem startLevel_resets_inventory:
  "powerCounts (startLevel level now config e) =
     [Bridge \<mapsto> 10, DoorBreaker \<mapsto> 8, SecurityBriber \<mapsto> 6]"
proof
  fix sp
  show "powerCounts (startLevel level now config e) sp =
          [Bridge \<mapsto> 10, DoorBreaker \<mapsto> 8, SecurityBriber \<mapsto> 6] sp"
    by (cases sp)
       (simp_all add: startLevel_def loadLevel_def buildPlatformsAndWalls_def
          initializePowerCounts_def Let_def)
qed

text \<open>
  The witness: a restart of the small level after the bridge uses were spent.
\<close>

theorem startLevel_resets_inventory_witness:
  "getCount (emptyBridgeEngine None) Bridge = 0 \<and>
   getCount (startLevel 2 7 demoConfig (emptyBridgeEngine None)) Bridge = 10 \<and>
   getCount (startLevel 2 7 demoConfig (emptyBridgeEngine None)) DoorBreaker = 8 \<and>
   getCount (startLevel 2 7 demoConfig (emptyBridgeEngine None)) SecurityBriber = 6"
  using startLevel_resets_inventory [of 2 7 demoConfig "emptyBridgeEngine None"]
  by (simp add: getCount_def emptyBridgeEngine_def)

end
